theory Spec2Isabelle
  imports Complex_Main
begin

section \<open>Python values, dictionaries and slices\<close>

text \<open>
  The values that \<^verbatim>\<open>json.load\<close> can return and \<^verbatim>\<open>json.dump\<close> can write. The
  message store \<^verbatim>\<open>self._messages\<close> holds such a value: a list after
  \<^verbatim>\<open>clear_messages\<close> or a first run, whatever document the data file held after
  \<^verbatim>\<open>_load_messages\<close>. A Python float is read as the real number it denotes (NaN and
  the infinities are left out).
\<close>

datatype json =
    JNull
  | JBool bool
  | JInt int
  | JFloat real
  | JStr string
  | JArr "json list"
  | JObj "(string \<times> json) list"

text \<open>
  The exceptions that arise: \<^verbatim>\<open>AttributeError\<close> from \<^verbatim>\<open>append\<close> on a store that is
  not a list, which leaves \<^verbatim>\<open>send_message\<close> uncaught, and \<^verbatim>\<open>TypeError\<close> from
  \<^verbatim>\<open>len\<close>, which the \<^verbatim>\<open>try\<close> blocks around it catch.
\<close>

datatype py_exception = AttributeError | TypeError

datatype 'a outcome = Returned 'a | Raised py_exception

text \<open>
  Python truthiness of a request field that is a string or absent (\<^verbatim>\<open>None\<close>, the
  default of \<^verbatim>\<open>username\<close> and \<^verbatim>\<open>content\<close>): \<^verbatim>\<open>not x\<close> holds for \<^verbatim>\<open>None\<close> and
  for the empty string, and for nothing else.
\<close>

fun truthy :: "string option \<Rightarrow> bool" where
  "truthy None = False"
| "truthy (Some s) = (s \<noteq> [])"

text \<open>
  \<^verbatim>\<open>len(x)\<close>: defined on lists, dicts and strings; a \<^verbatim>\<open>TypeError\<close> (here \<open>None\<close>)
  on \<^verbatim>\<open>None\<close>, booleans and numbers.
\<close>

fun py_len :: "json \<Rightarrow> nat option" where
  "py_len (JArr xs) = Some (length xs)"
| "py_len (JObj kvs) = Some (length kvs)"
| "py_len (JStr s) = Some (length s)"
| "py_len JNull = None"
| "py_len (JBool b) = None"
| "py_len (JInt i) = None"
| "py_len (JFloat r) = None"

text \<open>
  The slice \<^verbatim>\<open>xs[start:]\<close>: a negative start counts from the end and is clipped at the
  front, a start beyond the end is clipped at the end. \<^verbatim>\<open>xs[-0:]\<close> is \<^verbatim>\<open>xs[0:]\<close>,
  the whole list.
\<close>

definition py_slice_from :: "int \<Rightarrow> 'a list \<Rightarrow> 'a list" where
  "py_slice_from start xs =
     (let n = int (length xs);
          i = (if start < 0 then max (start + n) 0 else min start n)
      in drop (nat i) xs)"

text \<open>\<^verbatim>\<open>int(x)\<close> on a float truncates towards zero.\<close>

definition py_int :: "real \<Rightarrow> int" where
  "py_int r = (if 0 \<le> r then \<lfloor>r\<rfloor> else \<lceil>r\<rceil>)"

text \<open>
  A \<^verbatim>\<open>dict\<close> as an association list in insertion order, so that
  \<^verbatim>\<open>list(d.keys())\<close> is the list of first components. \<^verbatim>\<open>d[k] = v\<close> overwrites
  the value of a present key in place and appends an absent one;
  \<^verbatim>\<open>d.pop(k, None)\<close> removes the key when it is there.
\<close>

type_synonym ('k, 'v) dict = "('k \<times> 'v) list"

fun dict_setitem :: "'k \<Rightarrow> 'v \<Rightarrow> ('k, 'v) dict \<Rightarrow> ('k, 'v) dict" where
  "dict_setitem k v [] = [(k, v)]"
| "dict_setitem k v ((k', v') # d) =
     (if k' = k then (k', v) # d else (k', v') # dict_setitem k v d)"

fun dict_pop :: "'k \<Rightarrow> ('k, 'v) dict \<Rightarrow> ('k, 'v) dict" where
  "dict_pop k [] = []"
| "dict_pop k ((k', v') # d) = (if k' = k then dict_pop k d else (k', v') # dict_pop k d)"

definition dict_keys :: "('k, 'v) dict \<Rightarrow> 'k list" where
  "dict_keys d = map fst d"

definition dict_get :: "('k, 'v) dict \<Rightarrow> 'k \<Rightarrow> 'v option" where
  "dict_get d k = map_of d k"

text \<open>The invariant of the representation: a \<^verbatim>\<open>dict\<close> holds every key once.\<close>

definition dict_ok :: "('k, 'v) dict \<Rightarrow> bool" where
  "dict_ok d = distinct (map fst d)"


section \<open>The plugin's state and its environment\<close>

text \<open>
  The data file at \<^verbatim>\<open>self._chat_data_path\<close>: missing, a readable JSON document
  (\<^verbatim>\<open>json.load\<close> returns the value \<^verbatim>\<open>json.dump\<close> wrote: the library's contract,
  taken as given), or a file that \<^verbatim>\<open>open\<close> or \<^verbatim>\<open>json.load\<close> raises on.
\<close>

datatype data_file = Absent | Document json | Garbled

text \<open>
  What the operating system does with the write of \<^verbatim>\<open>_save_messages\<close>: it succeeds;
  \<^verbatim>\<open>open\<close> raises and the file stays as it was; or \<^verbatim>\<open>open(path, 'w')\<close> has truncated
  the file and the write raises before the document is complete.
\<close>

datatype write_outcome = WriteOk | OpenFailed | WriteInterrupted

text \<open>Lines of the host's logger, without the exception text they interpolate.\<close>

datatype log_level = INFO | ERROR

datatype log_event =
    Config_failed
  | Init_done
  | Init_started
  | Data_path
  | Config_items
  | Max_messages_set int
  | Online_timeout_set int
  | Init_loaded nat
  | Init_failed
  | Load_failed
  | Save_failed
  | Loaded nat
  | File_missing
  | Saved nat
  | Traceback

type_synonym log_entry = "log_level \<times> log_event"

text \<open>
  The texts of the response envelope. The source writes them in Chinese; they read:
  \<open>Op_ok\<close> "operation succeeded", \<open>Send_ok\<close> "sent", \<open>Clear_ok\<close> "cleared",
  \<open>Name_and_content_required\<close> "user name and message content must not be empty",
  \<open>Name_required\<close> "user name must not be empty".
\<close>

datatype text_msg = Op_ok | Send_ok | Clear_ok | Name_and_content_required | Name_required

text \<open>The response envelope; a dict without the key \<^verbatim>\<open>"data"\<close> has \<open>data = None\<close>.\<close>

record response =
  code :: int
  message :: text_msg
  data :: "json option"

text \<open>
  The private attributes of the plugin object, the file its path names, and the log.
  Timestamps are the seconds of \<^verbatim>\<open>time.time()\<close>, read as real numbers: the rounding
  of float arithmetic is not modelled.
\<close>

record chat_state =
  messages :: json
  online_users :: "(string, real) dict"
  max_messages :: int
  online_timeout :: int
  chat_data :: data_file
  logged :: "log_entry list"

text \<open>
  An entry of the configuration dict as \<^verbatim>\<open>init_plugin\<close> treats it: \<open>Falsy\<close> when
  \<^verbatim>\<open>config.get(key)\<close> is falsy (the key is missing, or the value is \<^verbatim>\<open>None\<close>,
  \<^verbatim>\<open>''\<close> or the integer 0); \<open>Converts n\<close> when it is truthy and \<^verbatim>\<open>int\<close> of it is
  \<open>n\<close> (so \<open>Converts 0\<close> is, for one, the string \<^verbatim>\<open>'0'\<close> of the form's text field);
  \<open>Rejected\<close> when it is truthy and \<^verbatim>\<open>int\<close> raises.
\<close>

datatype config_value = Falsy | Converts int | Rejected

record plugin_config =
  cfg_max_messages :: config_value
  cfg_online_timeout :: config_value

text \<open>
  What one call of \<^verbatim>\<open>send_message\<close> reads from outside, in the order it reads it:
  \<^verbatim>\<open>time.time()\<close> in \<^verbatim>\<open>_update_user_online\<close>, the formatted
  \<^verbatim>\<open>datetime.now()\<close>, \<^verbatim>\<open>time.time()\<close> for the id, and the fate of the write.
\<close>

record send_env =
  presence_clock :: real
  now_formatted :: string
  id_clock :: real
  write_result :: write_outcome


section \<open>ChatCenter\<close>

text \<open>
  The request fields \<^verbatim>\<open>username\<close>, \<^verbatim>\<open>content\<close> and \<^verbatim>\<open>type\<close> are strings, as the
  API types them; \<open>None\<close> is a field that is absent, the default \<^verbatim>\<open>None\<close> of the
  method. In \<^verbatim>\<open>send_message\<close> the guard comes first, as in the source; past it both
  fields are \<open>Some\<close>, so the last case of the definition is never taken.
\<close>

definition new_message :: "string \<Rightarrow> string \<Rightarrow> string \<Rightarrow> send_env \<Rightarrow> json" where
  "new_message username content type env =
     JObj [(''id'', JInt (py_int (id_clock env * 1000))),
           (''username'', JStr username),
           (''content'', JStr content),
           (''time'', JStr (now_formatted env)),
           (''type'', JStr type)]"

definition ChatCenter_update_user_online :: "string option \<Rightarrow> real \<Rightarrow> chat_state \<Rightarrow> chat_state" where
  "ChatCenter_update_user_online username now s =
     (case username of
        None \<Rightarrow> s
      | Some u \<Rightarrow>
          if \<not> truthy username then s
          else s\<lparr>online_users := dict_setitem u now (online_users s)\<rparr>)"

fun offline_users :: "real \<Rightarrow> int \<Rightarrow> (string, real) dict \<Rightarrow> string list" where
  "offline_users now timeout [] = []"
| "offline_users now timeout ((username, last_active) # items) =
     (if now - last_active > real_of_int timeout
      then username # offline_users now timeout items
      else offline_users now timeout items)"

fun pop_users :: "string list \<Rightarrow> (string, real) dict \<Rightarrow> (string, real) dict" where
  "pop_users [] d = d"
| "pop_users (username # rest) d = pop_users rest (dict_pop username d)"

definition ChatCenter_clean_offline_users :: "real \<Rightarrow> chat_state \<Rightarrow> chat_state" where
  "ChatCenter_clean_offline_users now s =
     s\<lparr>online_users :=
         pop_users (offline_users now (online_timeout s) (online_users s)) (online_users s)\<rparr>"

definition ChatCenter_load_messages :: "chat_state \<Rightarrow> chat_state" where
  "ChatCenter_load_messages s =
     (if chat_data s \<noteq> Absent then
        (case chat_data s of
           Document v \<Rightarrow> s\<lparr>messages := v\<rparr>
         | _ \<Rightarrow> s\<lparr>messages := JArr [], logged := logged s @ [(ERROR, Load_failed)]\<rparr>)
      else s\<lparr>messages := JArr []\<rparr>)"

definition ChatCenter_save_messages :: "write_outcome \<Rightarrow> chat_state \<Rightarrow> chat_state" where
  "ChatCenter_save_messages w s =
     (case w of
        WriteOk \<Rightarrow> s\<lparr>chat_data := Document (messages s)\<rparr>
      | OpenFailed \<Rightarrow> s\<lparr>logged := logged s @ [(ERROR, Save_failed)]\<rparr>
      | WriteInterrupted \<Rightarrow>
          s\<lparr>chat_data := Garbled, logged := logged s @ [(ERROR, Save_failed)]\<rparr>)"

text \<open>
  \<^verbatim>\<open>init_plugin\<close>: \<open>None\<close> is a configuration that is \<^verbatim>\<open>None\<close> or the empty dict. The
  directory of the data file is the host's configuration directory, which exists.
\<close>

definition ChatCenter_init_plugin :: "plugin_config option \<Rightarrow> chat_state \<Rightarrow> chat_state" where
  "ChatCenter_init_plugin config s =
     (let s1 =
            (case config of
               None \<Rightarrow> s
             | Some cfg \<Rightarrow>
                 (let s' =
                        (case cfg_max_messages cfg of
                           Falsy \<Rightarrow> s
                         | Converts n \<Rightarrow> s\<lparr>max_messages := n\<rparr>
                         | Rejected \<Rightarrow> s\<lparr>logged := logged s @ [(ERROR, Config_failed)]\<rparr>)
                  in case cfg_online_timeout cfg of
                       Falsy \<Rightarrow> s'
                     | Converts n \<Rightarrow> s'\<lparr>online_timeout := n\<rparr>
                     | Rejected \<Rightarrow> s'\<lparr>logged := logged s' @ [(ERROR, Config_failed)]\<rparr>));
          s2 = ChatCenter_load_messages s1
      in s2\<lparr>logged := logged s2 @ [(INFO, Init_done)]\<rparr>)"

definition ChatCenter_get_messages :: "chat_state \<Rightarrow> response" where
  "ChatCenter_get_messages s = \<lparr>code = 0, message = Op_ok, data = Some (messages s)\<rparr>"

definition ChatCenter_send_message ::
  "string option \<Rightarrow> string option \<Rightarrow> string \<Rightarrow> send_env \<Rightarrow> chat_state
     \<Rightarrow> response outcome \<times> chat_state" where
  "ChatCenter_send_message username content type env s =
     (if \<not> truthy username \<or> \<not> truthy content then
        (Returned \<lparr>code = 1, message = Name_and_content_required, data = None\<rparr>, s)
      else
        (case (username, content) of
           (Some u, Some c) \<Rightarrow>
             (let s1 = ChatCenter_update_user_online username (presence_clock env) s;
                  m = new_message u c type env
              in case messages s1 of
                   JArr xs \<Rightarrow>
                     (let appended = xs @ [m];
                          kept = (if int (length appended) > max_messages s1
                                  then py_slice_from (- max_messages s1) appended
                                  else appended);
                          s2 = ChatCenter_save_messages (write_result env) (s1\<lparr>messages := JArr kept\<rparr>)
                      in (Returned \<lparr>code = 0, message = Send_ok, data = Some m\<rparr>, s2))
                 | _ \<Rightarrow> (Raised AttributeError, s1))
         | _ \<Rightarrow> (Returned \<lparr>code = 1, message = Name_and_content_required, data = None\<rparr>, s)))"

text \<open>The call without a \<^verbatim>\<open>type\<close> argument takes the default \<^verbatim>\<open>type="text"\<close>.\<close>

definition ChatCenter_send_message_default ::
  "string option \<Rightarrow> string option \<Rightarrow> send_env \<Rightarrow> chat_state \<Rightarrow> response outcome \<times> chat_state" where
  "ChatCenter_send_message_default username content env s =
     ChatCenter_send_message username content ''text'' env s"

definition ChatCenter_get_online_users :: "real \<Rightarrow> chat_state \<Rightarrow> response \<times> chat_state" where
  "ChatCenter_get_online_users now s =
     (let s1 = ChatCenter_clean_offline_users now s;
          users = dict_keys (online_users s1)
      in (\<lparr>code = 0, message = Op_ok, data = Some (JArr (map JStr users))\<rparr>, s1))"

definition ChatCenter_user_heartbeat ::
  "string option \<Rightarrow> real \<Rightarrow> chat_state \<Rightarrow> response \<times> chat_state" where
  "ChatCenter_user_heartbeat username now s =
     (if \<not> truthy username then
        (\<lparr>code = 1, message = Name_required, data = None\<rparr>, s)
      else
        (\<lparr>code = 0, message = Op_ok, data = None\<rparr>, ChatCenter_update_user_online username now s))"

definition ChatCenter_clear_messages :: "write_outcome \<Rightarrow> chat_state \<Rightarrow> response \<times> chat_state" where
  "ChatCenter_clear_messages w s =
     (\<lparr>code = 0, message = Clear_ok, data = None\<rparr>,
      ChatCenter_save_messages w (s\<lparr>messages := JArr []\<rparr>))"


section \<open>ChatroomEnhanced\<close>

text \<open>
  The second plugin class. Its API methods and presence helpers are written out again from
  its own file; \<^verbatim>\<open>_load_messages\<close> and \<^verbatim>\<open>_save_messages\<close> carry extra logging, and
  the log lines that interpolate \<^verbatim>\<open>len(self._messages)\<close> raise a \<^verbatim>\<open>TypeError\<close>
  inside the \<^verbatim>\<open>try\<close> when the store is not sized. The outer \<^verbatim>\<open>try\<close> of
  \<^verbatim>\<open>_load_messages\<close> guards \<^verbatim>\<open>os.path.exists\<close> and a log call, neither of which
  raises here. The file ends by importing the name \<^verbatim>\<open>ChatroomEnhanced\<close> again from a
  sibling module \<^verbatim>\<open>.chatroom\<close> that is not among the sources; the class modelled is the
  one this file defines.
\<close>

definition ChatroomEnhanced_update_user_online ::
  "string option \<Rightarrow> real \<Rightarrow> chat_state \<Rightarrow> chat_state" where
  "ChatroomEnhanced_update_user_online username now s =
     (case username of
        None \<Rightarrow> s
      | Some u \<Rightarrow>
          if \<not> truthy username then s
          else s\<lparr>online_users := dict_setitem u now (online_users s)\<rparr>)"

definition ChatroomEnhanced_clean_offline_users :: "real \<Rightarrow> chat_state \<Rightarrow> chat_state" where
  "ChatroomEnhanced_clean_offline_users now s =
     s\<lparr>online_users :=
         pop_users (offline_users now (online_timeout s) (online_users s)) (online_users s)\<rparr>"

definition ChatroomEnhanced_load_messages :: "chat_state \<Rightarrow> chat_state" where
  "ChatroomEnhanced_load_messages s =
     (if chat_data s \<noteq> Absent then
        (case chat_data s of
           Document v \<Rightarrow>
             (case py_len v of
                Some n \<Rightarrow> s\<lparr>messages := v, logged := logged s @ [(INFO, Loaded n)]\<rparr>
              | None \<Rightarrow>
                  s\<lparr>messages := JArr [],
                    logged := logged s @ [(ERROR, Load_failed), (ERROR, Traceback)]\<rparr>)
         | _ \<Rightarrow>
             s\<lparr>messages := JArr [],
               logged := logged s @ [(ERROR, Load_failed), (ERROR, Traceback)]\<rparr>)
      else s\<lparr>messages := JArr [], logged := logged s @ [(INFO, File_missing)]\<rparr>)"

definition ChatroomEnhanced_save_messages :: "write_outcome \<Rightarrow> chat_state \<Rightarrow> chat_state" where
  "ChatroomEnhanced_save_messages w s =
     (case w of
        WriteOk \<Rightarrow>
          (case py_len (messages s) of
             Some n \<Rightarrow>
               s\<lparr>chat_data := Document (messages s), logged := logged s @ [(INFO, Saved n)]\<rparr>
           | None \<Rightarrow>
               s\<lparr>chat_data := Document (messages s),
                 logged := logged s @ [(ERROR, Save_failed), (ERROR, Traceback)]\<rparr>)
      | OpenFailed \<Rightarrow> s\<lparr>logged := logged s @ [(ERROR, Save_failed), (ERROR, Traceback)]\<rparr>
      | WriteInterrupted \<Rightarrow>
          s\<lparr>chat_data := Garbled,
            logged := logged s @ [(ERROR, Save_failed), (ERROR, Traceback)]\<rparr>)"

text \<open>
  \<^verbatim>\<open>init_plugin\<close> of the second class: the same steps inside one \<^verbatim>\<open>try\<close>, with a log
  line after each. The last line interpolates \<^verbatim>\<open>len(self._messages)\<close>; when that raises,
  the outer handler logs the failure.
\<close>

definition ChatroomEnhanced_init_plugin :: "plugin_config option \<Rightarrow> chat_state \<Rightarrow> chat_state" where
  "ChatroomEnhanced_init_plugin config s =
     (let s0 = s\<lparr>logged := logged s @ [(INFO, Init_started), (INFO, Data_path)]\<rparr>;
          s1 =
            (case config of
               None \<Rightarrow> s0
             | Some cfg \<Rightarrow>
                 (let sc = s0\<lparr>logged := logged s0 @ [(INFO, Config_items)]\<rparr>;
                      s' =
                        (case cfg_max_messages cfg of
                           Falsy \<Rightarrow> sc
                         | Converts n \<Rightarrow>
                             sc\<lparr>max_messages := n,
                               logged := logged sc @ [(INFO, Max_messages_set n)]\<rparr>
                         | Rejected \<Rightarrow> sc\<lparr>logged := logged sc @ [(ERROR, Config_failed)]\<rparr>)
                  in case cfg_online_timeout cfg of
                       Falsy \<Rightarrow> s'
                     | Converts n \<Rightarrow>
                         s'\<lparr>online_timeout := n,
                           logged := logged s' @ [(INFO, Online_timeout_set n)]\<rparr>
                     | Rejected \<Rightarrow> s'\<lparr>logged := logged s' @ [(ERROR, Config_failed)]\<rparr>));
          s2 = ChatroomEnhanced_load_messages s1
      in case py_len (messages s2) of
           Some n \<Rightarrow> s2\<lparr>logged := logged s2 @ [(INFO, Init_loaded n)]\<rparr>
         | None \<Rightarrow> s2\<lparr>logged := logged s2 @ [(ERROR, Init_failed), (ERROR, Traceback)]\<rparr>)"

definition ChatroomEnhanced_get_messages :: "chat_state \<Rightarrow> response" where
  "ChatroomEnhanced_get_messages s = \<lparr>code = 0, message = Op_ok, data = Some (messages s)\<rparr>"

definition ChatroomEnhanced_send_message ::
  "string option \<Rightarrow> string option \<Rightarrow> string \<Rightarrow> send_env \<Rightarrow> chat_state
     \<Rightarrow> response outcome \<times> chat_state" where
  "ChatroomEnhanced_send_message username content type env s =
     (if \<not> truthy username \<or> \<not> truthy content then
        (Returned \<lparr>code = 1, message = Name_and_content_required, data = None\<rparr>, s)
      else
        (case (username, content) of
           (Some u, Some c) \<Rightarrow>
             (let s1 = ChatroomEnhanced_update_user_online username (presence_clock env) s;
                  m = new_message u c type env
              in case messages s1 of
                   JArr xs \<Rightarrow>
                     (let appended = xs @ [m];
                          kept = (if int (length appended) > max_messages s1
                                  then py_slice_from (- max_messages s1) appended
                                  else appended);
                          s2 = ChatroomEnhanced_save_messages (write_result env)
                                 (s1\<lparr>messages := JArr kept\<rparr>)
                      in (Returned \<lparr>code = 0, message = Send_ok, data = Some m\<rparr>, s2))
                 | _ \<Rightarrow> (Raised AttributeError, s1))
         | _ \<Rightarrow> (Returned \<lparr>code = 1, message = Name_and_content_required, data = None\<rparr>, s)))"

definition ChatroomEnhanced_get_online_users :: "real \<Rightarrow> chat_state \<Rightarrow> response \<times> chat_state" where
  "ChatroomEnhanced_get_online_users now s =
     (let s1 = ChatroomEnhanced_clean_offline_users now s;
          users = dict_keys (online_users s1)
      in (\<lparr>code = 0, message = Op_ok, data = Some (JArr (map JStr users))\<rparr>, s1))"

definition ChatroomEnhanced_user_heartbeat ::
  "string option \<Rightarrow> real \<Rightarrow> chat_state \<Rightarrow> response \<times> chat_state" where
  "ChatroomEnhanced_user_heartbeat username now s =
     (if \<not> truthy username then
        (\<lparr>code = 1, message = Name_required, data = None\<rparr>, s)
      else
        (\<lparr>code = 0, message = Op_ok, data = None\<rparr>,
         ChatroomEnhanced_update_user_online username now s))"

definition ChatroomEnhanced_clear_messages ::
  "write_outcome \<Rightarrow> chat_state \<Rightarrow> response \<times> chat_state" where
  "ChatroomEnhanced_clear_messages w s =
     (\<lparr>code = 0, message = Clear_ok, data = None\<rparr>,
      ChatroomEnhanced_save_messages w (s\<lparr>messages := JArr []\<rparr>))"


section \<open>Sequences of posts, and the vocabulary of the properties\<close>

text \<open>
  What \<^verbatim>\<open>send_message\<close> does to the list: append, then cut with the slice
  \<^verbatim>\<open>[-max_messages:]\<close> when the length exceeds the bound.
\<close>

definition bounded_append :: "int \<Rightarrow> json list \<Rightarrow> json \<Rightarrow> json list" where
  "bounded_append bound xs m =
     (if int (length (xs @ [m])) > bound then py_slice_from (- bound) (xs @ [m]) else xs @ [m])"

text \<open>The last \<open>k\<close> elements of a list, in their order.\<close>

definition last_n :: "nat \<Rightarrow> 'a list \<Rightarrow> 'a list" where
  "last_n k xs = drop (length xs - k) xs"

text \<open>An entry whose age exceeds the timeout, as \<^verbatim>\<open>_clean_offline_users\<close> tests it.\<close>

definition expired :: "real \<Rightarrow> int \<Rightarrow> string \<times> real \<Rightarrow> bool" where
  "expired now timeout p = (now - snd p > real_of_int timeout)"

text \<open>A field of a stored message.\<close>

definition message_field :: "json \<Rightarrow> string \<Rightarrow> json option" where
  "message_field m key = (case m of JObj kvs \<Rightarrow> map_of kvs key | _ \<Rightarrow> None)"

text \<open>One call of \<^verbatim>\<open>send_message\<close>: its arguments and what it reads from outside.\<close>

record send_call =
  username_arg :: "string option"
  content_arg :: "string option"
  type_arg :: string
  env_arg :: send_env

text \<open>The message a call builds when it passes validation.\<close>

definition call_message :: "send_call \<Rightarrow> json option" where
  "call_message c =
     (case (username_arg c, content_arg c) of
        (Some u, Some t) \<Rightarrow> Some (new_message u t (type_arg c) (env_arg c))
      | _ \<Rightarrow> None)"

definition ChatCenter_send :: "send_call \<Rightarrow> chat_state \<Rightarrow> response outcome \<times> chat_state" where
  "ChatCenter_send c s =
     ChatCenter_send_message (username_arg c) (content_arg c) (type_arg c) (env_arg c) s"

definition ChatroomEnhanced_send :: "send_call \<Rightarrow> chat_state \<Rightarrow> response outcome \<times> chat_state" where
  "ChatroomEnhanced_send c s =
     ChatroomEnhanced_send_message (username_arg c) (content_arg c) (type_arg c) (env_arg c) s"

text \<open>
  A sequence of calls, each of which succeeds: every call returns code 0 with the created
  message. The result is the created messages in call order and the final state; \<open>None\<close>
  when some call fails validation or raises.
\<close>

fun post_all ::
  "(send_call \<Rightarrow> chat_state \<Rightarrow> response outcome \<times> chat_state) \<Rightarrow> send_call list \<Rightarrow> chat_state
     \<Rightarrow> (json list \<times> chat_state) option" where
  "post_all send [] s = Some ([], s)"
| "post_all send (c # cs) s =
     (case send c s of
        (Returned r, s') \<Rightarrow>
          (if code r = 0 then
             (case data r of
                Some m \<Rightarrow>
                  (case post_all send cs s' of
                     Some (ms, s'') \<Rightarrow> Some (m # ms, s'')
                   | None \<Rightarrow> None)
              | None \<Rightarrow> None)
           else None)
      | (Raised e, s') \<Rightarrow> None)"

text \<open>
  Two plugin objects that hold the same store: everything but the log, which the two
  classes fill differently.
\<close>

definition same_store :: "chat_state \<Rightarrow> chat_state \<Rightarrow> bool" where
  "same_store s t =
     (messages s = messages t \<and> online_users s = online_users t
      \<and> max_messages s = max_messages t \<and> online_timeout s = online_timeout t
      \<and> chat_data s = chat_data t)"


text \<open>
  A data file on which the two \<^verbatim>\<open>_load_messages\<close> install the same store: every file
  but a document that is a JSON number, boolean or \<^verbatim>\<open>null\<close>, on which \<^verbatim>\<open>len\<close> raises.
\<close>

definition sized_document :: "data_file \<Rightarrow> bool" where
  "sized_document file = (case file of Document v \<Rightarrow> py_len v \<noteq> None | _ \<Rightarrow> True)"


section \<open>Concrete states and calls\<close>

definition example_state :: chat_state where
  "example_state =
     \<lparr>messages = JArr [JObj [(''id'', JInt 1), (''username'', JStr ''bob''),
                              (''content'', JStr ''hello''), (''time'', JStr ''2024-01-01 00:00:00''),
                              (''type'', JStr ''text'')]],
      online_users = [(''bob'', 10)],
      max_messages = 2,
      online_timeout = 300,
      chat_data = Absent,
      logged = []\<rparr>"

definition example_env :: send_env where
  "example_env =
     \<lparr>presence_clock = 20, now_formatted = ''2024-01-01 00:00:20'', id_clock = 20.5,
      write_result = WriteOk\<rparr>"

text \<open>The class attributes a new plugin object starts from, and the data file it finds.\<close>

definition class_attributes :: "data_file \<Rightarrow> chat_state" where
  "class_attributes file =
     \<lparr>messages = JArr [], online_users = [], max_messages = 100, online_timeout = 300,
      chat_data = file, logged = []\<rparr>"

text \<open>A first run, configured with a value that \<^verbatim>\<open>int\<close> turns into \<open>bound\<close>.\<close>

definition empty_state :: "int \<Rightarrow> chat_state" where
  "empty_state bound =
     ChatCenter_init_plugin
       (Some \<lparr>cfg_max_messages = Converts bound, cfg_online_timeout = Falsy\<rparr>)
       (class_attributes Absent)"

text \<open>A first run, configured with a timeout that \<^verbatim>\<open>int\<close> turns into \<open>timeout\<close>.\<close>

definition timeout_state :: "int \<Rightarrow> chat_state" where
  "timeout_state timeout =
     ChatCenter_init_plugin
       (Some \<lparr>cfg_max_messages = Falsy, cfg_online_timeout = Converts timeout\<rparr>)
       (class_attributes Absent)"

definition alice_post :: "string \<Rightarrow> send_call" where
  "alice_post content =
     \<lparr>username_arg = Some ''alice'', content_arg = Some content, type_arg = ''text'',
      env_arg = example_env\<rparr>"

definition alice_message :: "string \<Rightarrow> json" where
  "alice_message content = new_message ''alice'' content ''text'' example_env"

definition after_three_posts :: chat_state where
  "after_three_posts =
     \<lparr>messages = JArr [alice_message ''b'', alice_message ''c''],
      online_users = [(''alice'', 20)],
      max_messages = 2,
      online_timeout = 300,
      chat_data = Document (JArr [alice_message ''b'', alice_message ''c'']),
      logged = [(INFO, Init_done)]\<rparr>"


section \<open>Facts about the Python fragments\<close>

lemma truthy_iff: "truthy u \<longleftrightarrow> (\<exists>n. u = Some n \<and> n \<noteq> [])"
  by (cases u) auto

subsection \<open>Dictionaries\<close>

lemma dict_get_setitem:
  "dict_get (dict_setitem k v d) k' = (if k' = k then Some v else dict_get d k')"
  by (induction d) (auto simp: dict_get_def)

lemma dict_keys_setitem:
  "dict_keys (dict_setitem k v d) =
     (if k \<in> set (dict_keys d) then dict_keys d else dict_keys d @ [k])"
  by (induction d) (force simp: dict_keys_def)+

lemma dict_ok_setitem: "dict_ok d \<Longrightarrow> dict_ok (dict_setitem k v d)"
  using dict_keys_setitem [of k v d] by (auto simp: dict_ok_def dict_keys_def)

lemma dict_keys_iff: "k \<in> set (dict_keys d) \<longleftrightarrow> dict_get d k \<noteq> None"
  by (simp add: dict_keys_def dict_get_def map_of_eq_None_iff)

lemma dict_pop_filter: "dict_pop k d = filter (\<lambda>p. fst p \<noteq> k) d"
  by (induction d) auto

lemma dict_ok_filter: "dict_ok d \<Longrightarrow> dict_ok (filter P d)"
  by (simp add: dict_ok_def distinct_map_filter)

lemma dict_get_filter:
  "dict_ok d \<Longrightarrow>
     dict_get (filter P d) k =
       (case dict_get d k of None \<Rightarrow> None | Some v \<Rightarrow> if P (k, v) then Some v else None)"
  unfolding dict_ok_def dict_get_def
  by (induction d) (auto split: option.splits simp: map_of_eq_None_iff image_iff)

subsection \<open>The two loops of \<^verbatim>\<open>_clean_offline_users\<close>\<close>

lemma pop_users_filter: "pop_users us d = filter (\<lambda>p. fst p \<notin> set us) d"
proof (induction us arbitrary: d)
  case Nil
  then show ?case by simp
next
  case (Cons u us)
  have "pop_users (u # us) d = filter (\<lambda>p. fst p \<notin> set us) (filter (\<lambda>p. fst p \<noteq> u) d)"
    by (simp add: Cons.IH dict_pop_filter)
  also have "\<dots> = filter (\<lambda>p. fst p \<notin> set (u # us)) d"
    by (induction d) auto
  finally show ?case .
qed

lemma offline_users_filter:
  "offline_users now timeout d = map fst (filter (expired now timeout) d)"
  by (induction d) (auto simp: expired_def)

text \<open>
  With every key held once, collecting the expired names and popping them afterwards
  leaves exactly the entries that are not expired, in their order.
\<close>

lemma pop_offline_users:
  assumes "dict_ok d"
  shows "pop_users (offline_users now timeout d) d = filter (\<lambda>p. \<not> expired now timeout p) d"
proof -
  have "(fst p \<in> set (map fst (filter (expired now timeout) d))) = expired now timeout p"
    if p: "p \<in> set d" for p
  proof
    assume "fst p \<in> set (map fst (filter (expired now timeout) d))"
    then obtain q where q: "q \<in> set d" "expired now timeout q" "fst q = fst p"
      by auto
    from assms p q have "q = p"
      unfolding dict_ok_def by (metis eq_key_imp_eq_value prod.collapse)
    with q show "expired now timeout p" by simp
  next
    assume "expired now timeout p"
    with p show "fst p \<in> set (map fst (filter (expired now timeout) d))" by force
  qed
  then have "filter (\<lambda>p. fst p \<notin> set (map fst (filter (expired now timeout) d))) d =
      filter (\<lambda>p. \<not> expired now timeout p) d"
    by (intro filter_cong) simp_all
  then show ?thesis
    unfolding pop_users_filter offline_users_filter .
qed

lemma clean_offline_users_filter:
  assumes "dict_ok (online_users s)"
  shows "online_users (ChatCenter_clean_offline_users now s) =
     filter (\<lambda>p. \<not> expired now (online_timeout s) p) (online_users s)"
  using pop_offline_users [OF assms] by (simp add: ChatCenter_clean_offline_users_def)

subsection \<open>The presence map keeps every key once\<close>

lemma dict_ok_update_user_online:
  "dict_ok (online_users s) \<Longrightarrow> dict_ok (online_users (ChatCenter_update_user_online u now s))"
  by (auto simp: ChatCenter_update_user_online_def dict_ok_setitem split: option.splits)

lemma dict_ok_clean_offline_users:
  "dict_ok (online_users s) \<Longrightarrow> dict_ok (online_users (ChatCenter_clean_offline_users now s))"
  by (simp add: clean_offline_users_filter dict_ok_filter)

lemma online_users_save_messages:
  "online_users (ChatCenter_save_messages w s) = online_users s"
  by (cases w) (simp_all add: ChatCenter_save_messages_def)

lemma dict_ok_operations:
  assumes "dict_ok (online_users s)"
  shows "dict_ok (online_users (snd (ChatCenter_send_message u c ty env s)))"
    and "dict_ok (online_users (snd (ChatCenter_get_online_users now s)))"
    and "dict_ok (online_users (snd (ChatCenter_user_heartbeat u now s)))"
    and "dict_ok (online_users (snd (ChatCenter_clear_messages w s)))"
    and "dict_ok (online_users (ChatCenter_load_messages s))"
proof -
  show "dict_ok (online_users (snd (ChatCenter_send_message u c ty env s)))"
    using dict_ok_update_user_online [OF assms, of u "presence_clock env"] assms
    by (auto simp: ChatCenter_send_message_def Let_def online_users_save_messages
        split: option.splits json.splits)
  show "dict_ok (online_users (snd (ChatCenter_get_online_users now s)))"
    using dict_ok_clean_offline_users [OF assms] by (simp add: ChatCenter_get_online_users_def Let_def)
  show "dict_ok (online_users (snd (ChatCenter_user_heartbeat u now s)))"
    using dict_ok_update_user_online [OF assms] assms by (simp add: ChatCenter_user_heartbeat_def)
  show "dict_ok (online_users (snd (ChatCenter_clear_messages w s)))"
    using assms by (simp add: ChatCenter_clear_messages_def online_users_save_messages)
  show "dict_ok (online_users (ChatCenter_load_messages s))"
    using assms by (simp add: ChatCenter_load_messages_def split: data_file.splits)
qed

subsection \<open>Start-up\<close>

lemma init_plugin_startup:
  "(chat_data s = Absent \<longrightarrow> messages (ChatCenter_init_plugin config s) = JArr [])
   \<and> (chat_data s = Garbled \<longrightarrow>
        messages (ChatCenter_init_plugin config s) = JArr []
        \<and> (ERROR, Load_failed) \<in> set (logged (ChatCenter_init_plugin config s)))
   \<and> (\<forall>v. chat_data s = Document v \<longrightarrow> messages (ChatCenter_init_plugin config s) = v)"
  by (auto simp: ChatCenter_init_plugin_def ChatCenter_load_messages_def Let_def
      split: option.splits config_value.splits)

text \<open>The bound is whatever integer the configured value converts to, zero and below included.\<close>

lemma init_plugin_max_messages:
  "max_messages (ChatCenter_init_plugin
     (Some \<lparr>cfg_max_messages = Converts n, cfg_online_timeout = c\<rparr>) s) = n"
  by (auto simp: ChatCenter_init_plugin_def ChatCenter_load_messages_def Let_def
      split: config_value.splits data_file.splits)

subsection \<open>Appending under the bound\<close>

lemma bounded_append_last_n:
  assumes "1 \<le> bound"
  shows "bounded_append bound xs m = last_n (nat bound) (xs @ [m])"
proof (cases "int (length (xs @ [m])) > bound")
  case True
  with assms have "nat (max (- bound + int (length (xs @ [m]))) 0) = length (xs @ [m]) - nat bound"
    by (simp add: max_def)
  with True assms show ?thesis
    by (simp add: bounded_append_def py_slice_from_def last_n_def Let_def del: length_append)
next
  case False
  then have "length (xs @ [m]) - nat bound = 0"
    by simp
  with False show ?thesis
    by (simp add: bounded_append_def last_n_def del: length_append)
qed

lemma last_n_append: "last_n k (last_n k xs @ ys) = last_n k (xs @ ys)"
proof -
  have "length xs - (length xs - k) + length ys - k + (length xs - k) = length xs + length ys - k"
    by arith
  moreover have "length xs - (length xs - k) + length ys - k - (length xs - (length xs - k))
      = length xs + length ys - k - length xs"
    by arith
  ultimately show ?thesis
    by (simp add: last_n_def)
qed

lemma length_last_n: "length (last_n k xs) = min k (length xs)"
  by (auto simp: last_n_def)

lemma last_n_append_long: "k \<le> length ys \<Longrightarrow> last_n k (xs @ ys) = last_n k ys"
  by (auto simp: last_n_def)

subsection \<open>What a call of \<^verbatim>\<open>send_message\<close> that passes validation does\<close>

lemma ChatCenter_send_message_ok:
  assumes "un \<noteq> []" and "cn \<noteq> []" and "messages s = JArr xs"
  shows "ChatCenter_send_message (Some un) (Some cn) ty env s =
     (Returned \<lparr>code = 0, message = Send_ok, data = Some (new_message un cn ty env)\<rparr>,
      ChatCenter_save_messages (write_result env)
        (s\<lparr>online_users := dict_setitem un (presence_clock env) (online_users s),
           messages := JArr (bounded_append (max_messages s) xs (new_message un cn ty env))\<rparr>))"
  using assms
  by (simp add: ChatCenter_send_message_def ChatCenter_update_user_online_def Let_def
      bounded_append_def)

lemma ChatCenter_send_message_raise:
  assumes "un \<noteq> []" and "cn \<noteq> []" and "\<forall>xs. messages s \<noteq> JArr xs"
  shows "ChatCenter_send_message (Some un) (Some cn) ty env s =
     (Raised AttributeError,
      s\<lparr>online_users := dict_setitem un (presence_clock env) (online_users s)\<rparr>)"
  using assms
  by (cases "messages s")
    (simp_all add: ChatCenter_send_message_def ChatCenter_update_user_online_def Let_def)

lemma ChatroomEnhanced_send_message_ok:
  assumes "un \<noteq> []" and "cn \<noteq> []" and "messages s = JArr xs"
  shows "ChatroomEnhanced_send_message (Some un) (Some cn) ty env s =
     (Returned \<lparr>code = 0, message = Send_ok, data = Some (new_message un cn ty env)\<rparr>,
      ChatroomEnhanced_save_messages (write_result env)
        (s\<lparr>online_users := dict_setitem un (presence_clock env) (online_users s),
           messages := JArr (bounded_append (max_messages s) xs (new_message un cn ty env))\<rparr>))"
  using assms
  by (simp add: ChatroomEnhanced_send_message_def ChatroomEnhanced_update_user_online_def Let_def
      bounded_append_def)

lemma ChatroomEnhanced_send_message_raise:
  assumes "un \<noteq> []" and "cn \<noteq> []" and "\<forall>xs. messages s \<noteq> JArr xs"
  shows "ChatroomEnhanced_send_message (Some un) (Some cn) ty env s =
     (Raised AttributeError,
      s\<lparr>online_users := dict_setitem un (presence_clock env) (online_users s)\<rparr>)"
  using assms
  by (cases "messages s")
    (simp_all add: ChatroomEnhanced_send_message_def ChatroomEnhanced_update_user_online_def
      Let_def)

text \<open>A call that returns code 0 found a list and left the bounded append of its message.\<close>

lemma ChatCenter_send_step:
  assumes "ChatCenter_send c s = (Returned r, s')" and "code r = 0"
  shows "\<exists>xs m. messages s = JArr xs \<and> call_message c = Some m \<and> data r = Some m
           \<and> messages s' = JArr (bounded_append (max_messages s) xs m)
           \<and> max_messages s' = max_messages s"
  using assms
  by (auto simp: ChatCenter_send_def ChatCenter_send_message_def call_message_def Let_def
      bounded_append_def ChatCenter_update_user_online_def ChatCenter_save_messages_def truthy_iff
      split: if_splits json.splits write_outcome.splits option.splits)

lemma ChatroomEnhanced_send_step:
  assumes "ChatroomEnhanced_send c s = (Returned r, s')" and "code r = 0"
  shows "\<exists>xs m. messages s = JArr xs \<and> call_message c = Some m \<and> data r = Some m
           \<and> messages s' = JArr (bounded_append (max_messages s) xs m)
           \<and> max_messages s' = max_messages s"
  using assms
  by (auto simp: ChatroomEnhanced_send_def ChatroomEnhanced_send_message_def call_message_def Let_def
      bounded_append_def ChatroomEnhanced_update_user_online_def ChatroomEnhanced_save_messages_def truthy_iff
      split: if_splits json.splits write_outcome.splits option.splits)


subsection \<open>Runs of successful posts\<close>

lemma post_all_prefix:
  "post_all send (cs1 @ cs2) s = Some (ms, s') \<Longrightarrow> \<exists>ms1 s1. post_all send cs1 s = Some (ms1, s1)"
proof (induction cs1 arbitrary: s ms)
  case Nil
  then show ?case by simp
next
  case (Cons c cs1)
  from Cons.prems obtain r s1 m ms1 where
    sent: "send c s = (Returned r, s1)" "code r = 0" "data r = Some m"
    and rest: "post_all send (cs1 @ cs2) s1 = Some (ms1, s')"
    by (auto split: prod.splits outcome.splits if_splits option.splits)
  from Cons.IH [OF rest] obtain ms2 s2 where "post_all send cs1 s1 = Some (ms2, s2)"
    by blast
  with sent show ?case by simp
qed

lemma post_all_messages:
  assumes step: "\<And>c s r s'. send c s = (Returned r, s') \<Longrightarrow> code r = 0 \<Longrightarrow>
      \<exists>xs m. messages s = JArr xs \<and> call_message c = Some m \<and> data r = Some m
        \<and> messages s' = JArr (bounded_append (max_messages s) xs m)
        \<and> max_messages s' = max_messages s"
    and run: "post_all send cs s = Some (ms, s')"
    and bound: "1 \<le> max_messages s"
  shows "map Some ms = map call_message cs \<and> max_messages s' = max_messages s
         \<and> (cs \<noteq> [] \<longrightarrow> (\<exists>xs. messages s = JArr xs
               \<and> messages s' = JArr (last_n (nat (max_messages s)) (xs @ ms))))"
  using run bound
proof (induction cs arbitrary: s ms)
  case Nil
  then show ?case by simp
next
  case (Cons c cs)
  from Cons.prems(1) obtain r s1 m ms1 where
    sent: "send c s = (Returned r, s1)" and ok: "code r = 0" and m: "data r = Some m"
    and rest: "post_all send cs s1 = Some (ms1, s')" and ms: "ms = m # ms1"
    by (auto split: prod.splits outcome.splits if_splits option.splits)
  from step [OF sent ok] m obtain xs where
    xs: "messages s = JArr xs" and cm: "call_message c = Some m"
    and s1: "messages s1 = JArr (bounded_append (max_messages s) xs m)"
    and mx: "max_messages s1 = max_messages s"
    by auto
  from Cons.prems(2) mx have b1: "1 \<le> max_messages s1" by simp
  note ih = Cons.IH [OF rest b1]
  have s1': "messages s1 = JArr (last_n (nat (max_messages s)) (xs @ [m]))"
    using s1 bounded_append_last_n [OF Cons.prems(2)] by simp
  have "messages s' = JArr (last_n (nat (max_messages s)) (xs @ ms))"
  proof (cases "cs = []")
    case True
    with rest have "s' = s1" "ms1 = []" by simp_all
    with s1' ms show ?thesis by simp
  next
    case False
    with ih s1' mx have "messages s' =
        JArr (last_n (nat (max_messages s)) (last_n (nat (max_messages s)) (xs @ [m]) @ ms1))"
      by auto
    then show ?thesis
      by (simp add: last_n_append ms)
  qed
  with ih cm ms xs mx show ?case by simp
qed

subsection \<open>The two classes on the same store\<close>

lemma save_same_store:
  "same_store s t \<Longrightarrow> same_store (ChatCenter_save_messages w s) (ChatroomEnhanced_save_messages w t)"
  by (cases w) (auto simp: same_store_def ChatCenter_save_messages_def
      ChatroomEnhanced_save_messages_def split: option.splits)

lemma update_same_store:
  "same_store s t \<Longrightarrow>
     same_store (ChatCenter_update_user_online u now s) (ChatroomEnhanced_update_user_online u now t)"
  by (auto simp: same_store_def ChatCenter_update_user_online_def
      ChatroomEnhanced_update_user_online_def split: option.splits)

lemma clean_same_store:
  "same_store s t \<Longrightarrow>
     same_store (ChatCenter_clean_offline_users now s) (ChatroomEnhanced_clean_offline_users now t)"
  by (auto simp: same_store_def ChatCenter_clean_offline_users_def
      ChatroomEnhanced_clean_offline_users_def)

lemma send_same_store:
  assumes "same_store s t"
  shows "fst (ChatCenter_send_message u c ty env s) = fst (ChatroomEnhanced_send_message u c ty env t)
     \<and> same_store (snd (ChatCenter_send_message u c ty env s))
          (snd (ChatroomEnhanced_send_message u c ty env t))"
proof (cases "truthy u \<and> truthy c")
  case False
  with assms show ?thesis
    by (auto simp: ChatCenter_send_message_def ChatroomEnhanced_send_message_def)
next
  case True
  then obtain un cn where uc: "u = Some un" "c = Some cn" and ne: "un \<noteq> []" "cn \<noteq> []"
    by (auto simp: truthy_iff)
  from assms have eq: "messages t = messages s" "max_messages t = max_messages s"
    "online_users t = online_users s"
    by (simp_all add: same_store_def)
  show ?thesis
  proof (cases "\<exists>xs. messages s = JArr xs")
    case True
    then obtain xs where xs: "messages s = JArr xs" ..
    let ?m = "new_message un cn ty env"
    let ?upd = "\<lambda>s::chat_state. s\<lparr>online_users := dict_setitem un (presence_clock env) (online_users s),
           messages := JArr (bounded_append (max_messages s) xs ?m)\<rparr>"
    have "same_store (?upd s) (?upd t)"
      using assms by (simp add: same_store_def)
    from save_same_store [OF this, of "write_result env"] show ?thesis
      unfolding uc
      by (simp add: ChatCenter_send_message_ok [OF ne xs]
          ChatroomEnhanced_send_message_ok [OF ne xs [folded eq(1)]])
  next
    case False
    then have no: "\<forall>xs. messages s \<noteq> JArr xs" by simp
    then have no': "\<forall>xs. messages t \<noteq> JArr xs" by (simp add: eq)
    show ?thesis
      unfolding uc
      using assms
      by (simp add: ChatCenter_send_message_raise [OF ne no]
          ChatroomEnhanced_send_message_raise [OF ne no'] same_store_def)
  qed
qed


text \<open>Start-up on a data file that is not a scalar document leaves the same store in both.\<close>

lemma load_same_store:
  assumes "same_store s t" and "sized_document (chat_data s)"
  shows "same_store (ChatCenter_load_messages s) (ChatroomEnhanced_load_messages t)"
  using assms
  by (auto simp: same_store_def sized_document_def ChatCenter_load_messages_def
      ChatroomEnhanced_load_messages_def split: data_file.splits option.splits)

lemma init_plugin_same_store:
  assumes "same_store s t" and "sized_document (chat_data s)"
  shows "same_store (ChatCenter_init_plugin config s) (ChatroomEnhanced_init_plugin config t)"
proof -
  let ?s1 = "(case config of
               None \<Rightarrow> s
             | Some cfg \<Rightarrow>
                 (let s' =
                        (case cfg_max_messages cfg of
                           Falsy \<Rightarrow> s
                         | Converts n \<Rightarrow> s\<lparr>max_messages := n\<rparr>
                         | Rejected \<Rightarrow> s\<lparr>logged := logged s @ [(ERROR, Config_failed)]\<rparr>)
                  in case cfg_online_timeout cfg of
                       Falsy \<Rightarrow> s'
                     | Converts n \<Rightarrow> s'\<lparr>online_timeout := n\<rparr>
                     | Rejected \<Rightarrow> s'\<lparr>logged := logged s' @ [(ERROR, Config_failed)]\<rparr>))"
  let ?t0 = "t\<lparr>logged := logged t @ [(INFO, Init_started), (INFO, Data_path)]\<rparr>"
  let ?t1 = "(case config of
               None \<Rightarrow> ?t0
             | Some cfg \<Rightarrow>
                 (let sc = ?t0\<lparr>logged := logged ?t0 @ [(INFO, Config_items)]\<rparr>;
                      s' =
                        (case cfg_max_messages cfg of
                           Falsy \<Rightarrow> sc
                         | Converts n \<Rightarrow>
                             sc\<lparr>max_messages := n,
                               logged := logged sc @ [(INFO, Max_messages_set n)]\<rparr>
                         | Rejected \<Rightarrow> sc\<lparr>logged := logged sc @ [(ERROR, Config_failed)]\<rparr>)
                  in case cfg_online_timeout cfg of
                       Falsy \<Rightarrow> s'
                     | Converts n \<Rightarrow>
                         s'\<lparr>online_timeout := n,
                           logged := logged s' @ [(INFO, Online_timeout_set n)]\<rparr>
                     | Rejected \<Rightarrow> s'\<lparr>logged := logged s' @ [(ERROR, Config_failed)]\<rparr>))"
  have cfg: "same_store ?s1 ?t1 \<and> chat_data ?s1 = chat_data s"
    using assms(1)
    by (auto simp: same_store_def Let_def split: option.splits config_value.splits)
  then have "same_store (ChatCenter_load_messages ?s1) (ChatroomEnhanced_load_messages ?t1)"
    using load_same_store assms(2) by simp
  then show ?thesis
    by (auto simp: ChatCenter_init_plugin_def ChatroomEnhanced_init_plugin_def Let_def
        same_store_def split: option.splits)
qed

subsection \<open>Unfolding the model on concrete inputs\<close>

lemma empty_state_eq:
  "empty_state bound =
     \<lparr>messages = JArr [], online_users = [], max_messages = bound, online_timeout = 300,
      chat_data = Absent, logged = [(INFO, Init_done)]\<rparr>"
  by (simp add: empty_state_def class_attributes_def ChatCenter_init_plugin_def
      ChatCenter_load_messages_def)

lemma timeout_state_eq:
  "timeout_state timeout =
     \<lparr>messages = JArr [], online_users = [], max_messages = 100, online_timeout = timeout,
      chat_data = Absent, logged = [(INFO, Init_done)]\<rparr>"
  by (simp add: timeout_state_def class_attributes_def ChatCenter_init_plugin_def
      ChatCenter_load_messages_def)

lemmas eval_defs =
  ChatCenter_send_def ChatCenter_send_message_def ChatCenter_update_user_online_def
  ChatCenter_save_messages_def ChatCenter_get_messages_def ChatCenter_load_messages_def
  ChatCenter_clean_offline_users_def ChatCenter_get_online_users_def
  ChatCenter_user_heartbeat_def ChatCenter_clear_messages_def
  ChatCenter_send_message_default_def
  alice_post_def alice_message_def example_env_def example_state_def empty_state_eq
  after_three_posts_def py_slice_from_def Let_def dict_keys_def dict_get_def dict_ok_def

lemma three_posts_run:
  "post_all ChatCenter_send [alice_post ''a'', alice_post ''b'', alice_post ''c''] (empty_state 2) =
     Some ([alice_message ''a'', alice_message ''b'', alice_message ''c''], after_three_posts)"
  by (simp add: eval_defs)



section \<open>The bounded message log\<close>

text \<open>
  Claim C1, for a bound of at least one. In either class, let a run of calls of
  \<^verbatim>\<open>send_message\<close> succeed from any state whose \<^verbatim>\<open>max_messages\<close> is at least 1.
  The messages the calls returned are the messages built from their arguments, in call
  order. When the run has at least \<^verbatim>\<open>max_messages\<close> calls, the store afterwards, and so
  the data of \<^verbatim>\<open>get_messages\<close>, is exactly the last \<^verbatim>\<open>max_messages\<close> of them in that
  order. After every call of the run the store is a list of at most \<^verbatim>\<open>max_messages\<close>
  elements.
\<close>

theorem bounded_log:
  assumes "send = ChatCenter_send \<or> send = ChatroomEnhanced_send"
    and "1 \<le> max_messages s"
    and "post_all send cs s = Some (ms, s')"
  shows "map Some ms = map call_message cs
    \<and> (max_messages s \<le> int (length cs) \<longrightarrow>
         messages s' = JArr (last_n (nat (max_messages s)) ms)
         \<and> ChatCenter_get_messages s' =
             \<lparr>code = 0, message = Op_ok, data = Some (JArr (last_n (nat (max_messages s)) ms))\<rparr>
         \<and> ChatroomEnhanced_get_messages s' =
             \<lparr>code = 0, message = Op_ok, data = Some (JArr (last_n (nat (max_messages s)) ms))\<rparr>)
    \<and> (\<forall>k. 0 < k \<and> k \<le> length cs \<longrightarrow>
         (\<exists>ms_k s_k xs_k. post_all send (take k cs) s = Some (ms_k, s_k)
            \<and> messages s_k = JArr xs_k \<and> int (length xs_k) \<le> max_messages s))"
proof -
  have step: "\<And>c s r s'. send c s = (Returned r, s') \<Longrightarrow> code r = 0 \<Longrightarrow>
      \<exists>xs m. messages s = JArr xs \<and> call_message c = Some m \<and> data r = Some m
        \<and> messages s' = JArr (bounded_append (max_messages s) xs m)
        \<and> max_messages s' = max_messages s"
    using assms(1) ChatCenter_send_step ChatroomEnhanced_send_step by blast
  note all = post_all_messages [of send, OF step assms(3) assms(2)]
  have len: "length ms = length cs"
    using all by (metis length_map)
  have final: "max_messages s \<le> int (length cs) \<Longrightarrow>
      messages s' = JArr (last_n (nat (max_messages s)) ms)"
  proof -
    assume long: "max_messages s \<le> int (length cs)"
    with assms(2) have "cs \<noteq> []" by auto
    with all obtain xs where "messages s' = JArr (last_n (nat (max_messages s)) (xs @ ms))"
      by auto
    moreover from long len have "nat (max_messages s) \<le> length ms" by simp
    ultimately show ?thesis by (simp add: last_n_append_long)
  qed
  have prefixes: "\<exists>ms_k s_k xs_k. post_all send (take k cs) s = Some (ms_k, s_k)
            \<and> messages s_k = JArr xs_k \<and> int (length xs_k) \<le> max_messages s"
    if k: "0 < k \<and> k \<le> length cs" for k
  proof -
    have "post_all send (take k cs @ drop k cs) s = Some (ms, s')"
      using assms(3) by simp
    then obtain ms_k s_k where run: "post_all send (take k cs) s = Some (ms_k, s_k)"
      using post_all_prefix by blast
    from k have ne: "take k cs \<noteq> []" by auto
    from post_all_messages [of send, OF step run assms(2)] ne obtain xs where
      "messages s_k = JArr (last_n (nat (max_messages s)) (xs @ ms_k))"
      by auto
    moreover have "int (length (last_n (nat (max_messages s)) (xs @ ms_k))) \<le> max_messages s"
      using assms(2) by (simp add: length_last_n del: length_append)
    ultimately show ?thesis using run by blast
  qed
  from all final prefixes show ?thesis
    by (simp add: ChatCenter_get_messages_def ChatroomEnhanced_get_messages_def)
qed

theorem bounded_log_witness:
  "(1::int) \<le> max_messages (empty_state 2)
   \<and> post_all ChatCenter_send [alice_post ''a'', alice_post ''b'', alice_post ''c''] (empty_state 2) =
       Some ([alice_message ''a'', alice_message ''b'', alice_message ''c''], after_three_posts)
   \<and> ChatCenter_get_messages after_three_posts =
       \<lparr>code = 0, message = Op_ok, data = Some (JArr [alice_message ''b'', alice_message ''c''])\<rparr>"
proof -
  have b: "1 \<le> max_messages (empty_state 2)"
    by (simp add: empty_state_eq)
  from bounded_log [OF disjI1 [OF refl] b three_posts_run] three_posts_run b show ?thesis
    by (simp add: last_n_def empty_state_eq)
qed


text \<open>
  Claim C1 as stated, for every configured integer, fails. \<^verbatim>\<open>init_plugin\<close> takes any
  integer the configured value converts to, and nothing checks its range. With
  \<^verbatim>\<open>max_messages = 0\<close> the test \<^verbatim>\<open>len > 0\<close> holds and the slice \<^verbatim>\<open>[-0:]\<close> keeps
  the whole list: one post leaves one message, more than the bound and not the last zero.
  With \<^verbatim>\<open>max_messages = -1\<close> the slice \<^verbatim>\<open>[1:]\<close> drops the message just appended, and
  the empty list is still longer than the bound.
\<close>

theorem bound_fails_for_nonpositive_limit:
  "fst (ChatCenter_send (alice_post ''a'') (empty_state 0)) =
     Returned \<lparr>code = 0, message = Send_ok, data = Some (alice_message ''a'')\<rparr>
   \<and> ChatCenter_get_messages (snd (ChatCenter_send (alice_post ''a'') (empty_state 0))) =
       \<lparr>code = 0, message = Op_ok, data = Some (JArr [alice_message ''a''])\<rparr>
   \<and> int (length [alice_post ''a'']) > max_messages (empty_state 0)
   \<and> last_n (nat (max_messages (empty_state 0))) [alice_message ''a''] \<noteq> [alice_message ''a'']
   \<and> int (length [alice_message ''a'']) > max_messages (empty_state 0)
   \<and> fst (ChatCenter_send (alice_post ''a'') (empty_state (- 1))) =
       Returned \<lparr>code = 0, message = Send_ok, data = Some (alice_message ''a'')\<rparr>
   \<and> messages (snd (ChatCenter_send (alice_post ''a'') (empty_state (- 1)))) = JArr []
   \<and> int (length ([] :: json list)) > max_messages (empty_state (- 1))"
  by (simp add: eval_defs last_n_def)


section \<open>Validation of a post\<close>

text \<open>
  Claim C2. In every state, \<^verbatim>\<open>send_message\<close> with a username or a content that is
  absent or the empty string returns the envelope with code 1, its message and no data,
  and the state after the call is the state before it: message list, presence map, data
  file and log are untouched.
\<close>

theorem send_message_rejects_empty:
  assumes "username = None \<or> username = Some [] \<or> content = None \<or> content = Some []"
  shows "ChatCenter_send_message username content type env s =
           (Returned \<lparr>code = 1, message = Name_and_content_required, data = None\<rparr>, s)"
  using assms by (auto simp: ChatCenter_send_message_def)

theorem send_message_rejects_empty_witness:
  "ChatCenter_send_message (Some ''alice'') (Some '''') ''text'' example_env example_state =
     (Returned \<lparr>code = 1, message = Name_and_content_required, data = None\<rparr>, example_state)
   \<and> ChatCenter_send_message None (Some ''hi'') ''text'' example_env example_state =
     (Returned \<lparr>code = 1, message = Name_and_content_required, data = None\<rparr>, example_state)"
  using send_message_rejects_empty [of "Some ''alice''" "Some ''''" "''text''" example_env example_state]
    send_message_rejects_empty [of None "Some ''hi''" "''text''" example_env example_state]
  by simp

section \<open>Presence and its expiry\<close>

text \<open>
  Claim C3, as the code has it. For every presence map and every reading \<open>now\<close> of the clock,
  \<^verbatim>\<open>get_online_users\<close> removes exactly the entries whose age \<open>now - last_active\<close>
  exceeds \<^verbatim>\<open>online_timeout\<close>, keeps the others with their timestamps and order, changes
  nothing else, and returns code 0 with the names of the entries that remain. So a name is
  returned iff it had an entry with \<open>now - last_active \<le> online_timeout\<close>. After a
  heartbeat of a non-empty name at time \<open>t\<close> and no other call, the list read at time
  \<open>now\<close> holds the name iff \<open>now - t \<le> online_timeout\<close>: it is gone when more than
  the timeout has passed, and there when read at once, at the same reading of the clock,
  under a timeout that is not negative.
\<close>

theorem online_users_expiry:
  assumes "dict_ok (online_users s)"
  shows "(let (r, s') = ChatCenter_get_online_users now s in
       online_users s' =
         filter (\<lambda>(u, t). \<not> now - t > real_of_int (online_timeout s)) (online_users s)
     \<and> r = \<lparr>code = 0, message = Op_ok, data = Some (JArr (map JStr (dict_keys (online_users s'))))\<rparr>
     \<and> (\<forall>u. u \<in> set (dict_keys (online_users s')) \<longleftrightarrow>
           (\<exists>t. dict_get (online_users s) u = Some t \<and> now - t \<le> real_of_int (online_timeout s)))
     \<and> s' = s\<lparr>online_users := online_users s'\<rparr>)
   \<and> (\<forall>name t. name \<noteq> [] \<longrightarrow>
         (name \<in> set (dict_keys (online_users (snd (ChatCenter_get_online_users now
              (snd (ChatCenter_user_heartbeat (Some name) t s))))))
          \<longleftrightarrow> now - t \<le> real_of_int (online_timeout s)))
   \<and> (\<forall>name t. name \<noteq> [] \<and> 0 \<le> online_timeout s \<longrightarrow>
         name \<in> set (dict_keys (online_users (snd (ChatCenter_get_online_users t
              (snd (ChatCenter_user_heartbeat (Some name) t s)))))))"
proof -
  have flt: "online_users (ChatCenter_clean_offline_users tm s') =
      filter (\<lambda>(u, t). \<not> tm - t > real_of_int (online_timeout s')) (online_users s')"
    if "dict_ok (online_users s')" for s' tm
    using clean_offline_users_filter [OF that, of tm]
    by (simp add: expired_def case_prod_unfold)
  have mem: "(u \<in> set (dict_keys (online_users (ChatCenter_clean_offline_users tm s')))) =
      (\<exists>t. dict_get (online_users s') u = Some t \<and> tm - t \<le> real_of_int (online_timeout s'))"
    if ok: "dict_ok (online_users s')" for s' u tm
    unfolding dict_keys_iff flt [OF ok] dict_get_filter [OF ok]
    by (auto split: option.splits)
  have first: "(let (r, s') = ChatCenter_get_online_users now s in
       online_users s' =
         filter (\<lambda>(u, t). \<not> now - t > real_of_int (online_timeout s)) (online_users s)
     \<and> r = \<lparr>code = 0, message = Op_ok, data = Some (JArr (map JStr (dict_keys (online_users s'))))\<rparr>
     \<and> (\<forall>u. u \<in> set (dict_keys (online_users s')) \<longleftrightarrow>
           (\<exists>t. dict_get (online_users s) u = Some t \<and> now - t \<le> real_of_int (online_timeout s)))
     \<and> s' = s\<lparr>online_users := online_users s'\<rparr>)"
    using flt [OF assms, of now] mem [OF assms, of _ now]
    by (simp add: ChatCenter_get_online_users_def Let_def)
      (simp add: ChatCenter_clean_offline_users_def)
  have second: "(name \<in> set (dict_keys (online_users (snd (ChatCenter_get_online_users tm
              (snd (ChatCenter_user_heartbeat (Some name) t s))))))
          \<longleftrightarrow> tm - t \<le> real_of_int (online_timeout s))" if "name \<noteq> []" for name t tm
  proof -
    let ?s1 = "snd (ChatCenter_user_heartbeat (Some name) t s)"
    from that have s1: "?s1 = s\<lparr>online_users := dict_setitem name t (online_users s)\<rparr>"
      by (simp add: ChatCenter_user_heartbeat_def ChatCenter_update_user_online_def)
    then have ok1: "dict_ok (online_users ?s1)"
      using assms by (simp add: dict_ok_setitem)
    have "snd (ChatCenter_get_online_users tm ?s1) = ChatCenter_clean_offline_users tm ?s1"
      by (simp add: ChatCenter_get_online_users_def Let_def)
    then show ?thesis
      using mem [OF ok1, of name tm] by (simp add: s1 dict_get_setitem)
  qed
  have third: "name \<in> set (dict_keys (online_users (snd (ChatCenter_get_online_users t
              (snd (ChatCenter_user_heartbeat (Some name) t s))))))"
    if "name \<noteq> [] \<and> 0 \<le> online_timeout s" for name t
    using second [of name t t] that by simp
  from first second [where tm = now] third show ?thesis by blast
qed

theorem online_users_expiry_witness:
  "dict_ok (online_users example_state)
   \<and> ChatCenter_get_online_users 310 example_state =
       (\<lparr>code = 0, message = Op_ok, data = Some (JArr [JStr ''bob''])\<rparr>, example_state)
   \<and> ChatCenter_get_online_users 311 example_state =
       (\<lparr>code = 0, message = Op_ok, data = Some (JArr [])\<rparr>, example_state\<lparr>online_users := []\<rparr>)
   \<and> ''carol'' \<in> set (dict_keys (online_users (snd (ChatCenter_get_online_users 320
         (snd (ChatCenter_user_heartbeat (Some ''carol'') 20 example_state))))))
   \<and> ''carol'' \<notin> set (dict_keys (online_users (snd (ChatCenter_get_online_users 321
         (snd (ChatCenter_user_heartbeat (Some ''carol'') 20 example_state))))))
   \<and> (0::int) \<le> online_timeout example_state
   \<and> fst (ChatCenter_get_online_users 20
         (snd (ChatCenter_user_heartbeat (Some ''carol'') 20 example_state))) =
       \<lparr>code = 0, message = Op_ok, data = Some (JArr [JStr ''bob'', JStr ''carol''])\<rparr>"
proof -
  have ok: "dict_ok (online_users example_state)"
    by (simp add: example_state_def dict_ok_def)
  from online_users_expiry [OF ok, of 310] online_users_expiry [OF ok, of 311]
    online_users_expiry [OF ok, of 320] online_users_expiry [OF ok, of 321] ok
  show ?thesis
    by (simp add: eval_defs)
qed

text \<open>
  Claim C3 as stated fails in its heartbeat part: \<^verbatim>\<open>init_plugin\<close> takes any integer the
  configured timeout converts to, and under a negative one the age 0 of an entry already
  exceeds it. With \<^verbatim>\<open>online_timeout = -5\<close> a heartbeat that succeeds, followed at the
  same reading of the clock by \<^verbatim>\<open>get_online_users\<close>, is answered with the empty list.
\<close>

theorem immediate_read_fails_for_negative_timeout:
  "online_timeout (timeout_state (- 5)) = - 5
   \<and> ChatCenter_user_heartbeat (Some ''carol'') 20 (timeout_state (- 5)) =
       (\<lparr>code = 0, message = Op_ok, data = None\<rparr>,
        (timeout_state (- 5))\<lparr>online_users := [(''carol'', 20)]\<rparr>)
   \<and> ChatCenter_get_online_users 20
         (snd (ChatCenter_user_heartbeat (Some ''carol'') 20 (timeout_state (- 5)))) =
       (\<lparr>code = 0, message = Op_ok, data = Some (JArr [])\<rparr>, timeout_state (- 5))"
  by (simp add: eval_defs timeout_state_eq)


section \<open>Persistence\<close>

text \<open>
  Claim C4. For every message list \<open>xs\<close>, a save that the operating system carries out
  leaves the data file holding the document of \<open>xs\<close>, and \<^verbatim>\<open>_load_messages\<close> in any
  plugin object that finds this file (the restarted process) installs \<open>xs\<close> itself, equal
  in content and order.
\<close>

theorem save_then_load:
  "chat_data (ChatCenter_save_messages WriteOk (s\<lparr>messages := JArr xs\<rparr>)) = Document (JArr xs)
   \<and> messages (ChatCenter_load_messages
        (t\<lparr>chat_data := chat_data (ChatCenter_save_messages WriteOk (s\<lparr>messages := JArr xs\<rparr>))\<rparr>))
      = JArr xs"
  by (simp add: ChatCenter_save_messages_def ChatCenter_load_messages_def)


section \<open>The two plugin classes\<close>

text \<open>
  Claim C5, as the code has it. Let a ChatCenter object and a ChatroomEnhanced object
  hold the same store: the same message store, presence map, configuration and data file
  content (each in its own file), whatever their logs. Then each of the five operations,
  on the same arguments and the same readings of the clock and fate of the write, returns
  the same envelope (or raises the same exception) in both, and leaves them holding the
  same store again. \<^verbatim>\<open>init_plugin\<close> under the same configuration leaves them holding
  the same store as well, unless the data file is a document that holds a JSON number,
  boolean or \<^verbatim>\<open>null\<close>.
\<close>

theorem plugins_agree:
  assumes "same_store s t"
  shows "ChatCenter_get_messages s = ChatroomEnhanced_get_messages t
    \<and> fst (ChatCenter_send_message u c ty env s) = fst (ChatroomEnhanced_send_message u c ty env t)
    \<and> same_store (snd (ChatCenter_send_message u c ty env s))
         (snd (ChatroomEnhanced_send_message u c ty env t))
    \<and> fst (ChatCenter_get_online_users now s) = fst (ChatroomEnhanced_get_online_users now t)
    \<and> same_store (snd (ChatCenter_get_online_users now s))
         (snd (ChatroomEnhanced_get_online_users now t))
    \<and> fst (ChatCenter_user_heartbeat u now s) = fst (ChatroomEnhanced_user_heartbeat u now t)
    \<and> same_store (snd (ChatCenter_user_heartbeat u now s))
         (snd (ChatroomEnhanced_user_heartbeat u now t))
    \<and> fst (ChatCenter_clear_messages w s) = fst (ChatroomEnhanced_clear_messages w t)
    \<and> same_store (snd (ChatCenter_clear_messages w s)) (snd (ChatroomEnhanced_clear_messages w t))
    \<and> (sized_document (chat_data s) \<longrightarrow>
         same_store (ChatCenter_init_plugin config s) (ChatroomEnhanced_init_plugin config t))"
proof -
  have get: "ChatCenter_get_messages s = ChatroomEnhanced_get_messages t"
    using assms by (simp add: same_store_def ChatCenter_get_messages_def ChatroomEnhanced_get_messages_def)
  have online: "fst (ChatCenter_get_online_users now s) = fst (ChatroomEnhanced_get_online_users now t)
    \<and> same_store (snd (ChatCenter_get_online_users now s))
         (snd (ChatroomEnhanced_get_online_users now t))"
    using clean_same_store [OF assms, of now]
    by (simp add: ChatCenter_get_online_users_def ChatroomEnhanced_get_online_users_def Let_def
        same_store_def)
  have beat: "fst (ChatCenter_user_heartbeat u now s) = fst (ChatroomEnhanced_user_heartbeat u now t)
    \<and> same_store (snd (ChatCenter_user_heartbeat u now s))
         (snd (ChatroomEnhanced_user_heartbeat u now t))"
    using update_same_store [OF assms, of u now] assms
    by (simp add: ChatCenter_user_heartbeat_def ChatroomEnhanced_user_heartbeat_def)
  have "same_store (s\<lparr>messages := JArr []\<rparr>) (t\<lparr>messages := JArr []\<rparr>)"
    using assms by (simp add: same_store_def)
  from save_same_store [OF this, of w]
  have clear: "fst (ChatCenter_clear_messages w s) = fst (ChatroomEnhanced_clear_messages w t)
    \<and> same_store (snd (ChatCenter_clear_messages w s)) (snd (ChatroomEnhanced_clear_messages w t))"
    by (simp add: ChatCenter_clear_messages_def ChatroomEnhanced_clear_messages_def)
  have start: "sized_document (chat_data s) \<longrightarrow>
      same_store (ChatCenter_init_plugin config s) (ChatroomEnhanced_init_plugin config t)"
    using init_plugin_same_store [OF assms] by blast
  from get send_same_store [OF assms] online beat clear start show ?thesis by blast
qed

theorem plugins_agree_witness:
  "same_store example_state (example_state\<lparr>logged := [(INFO, Loaded 1)]\<rparr>)
   \<and> ChatroomEnhanced_get_messages (example_state\<lparr>logged := [(INFO, Loaded 1)]\<rparr>) =
       ChatCenter_get_messages example_state
   \<and> fst (ChatroomEnhanced_send_message (Some ''alice'') (Some ''hi'') ''text'' example_env
         (example_state\<lparr>logged := [(INFO, Loaded 1)]\<rparr>)) =
       Returned \<lparr>code = 0, message = Send_ok, data = Some (alice_message ''hi'')\<rparr>
   \<and> fst (ChatroomEnhanced_get_online_users 311 (example_state\<lparr>logged := [(INFO, Loaded 1)]\<rparr>)) =
       \<lparr>code = 0, message = Op_ok, data = Some (JArr [])\<rparr>
   \<and> fst (ChatroomEnhanced_user_heartbeat (Some ''alice'') 311
         (example_state\<lparr>logged := [(INFO, Loaded 1)]\<rparr>)) =
       \<lparr>code = 0, message = Op_ok, data = None\<rparr>
   \<and> fst (ChatroomEnhanced_clear_messages WriteOk (example_state\<lparr>logged := [(INFO, Loaded 1)]\<rparr>)) =
       \<lparr>code = 0, message = Clear_ok, data = None\<rparr>
   \<and> sized_document (chat_data example_state)
   \<and> same_store (ChatCenter_init_plugin None example_state)
         (ChatroomEnhanced_init_plugin None (example_state\<lparr>logged := [(INFO, Loaded 1)]\<rparr>))
   \<and> messages (ChatroomEnhanced_init_plugin None (example_state\<lparr>logged := [(INFO, Loaded 1)]\<rparr>))
       = JArr []"
proof -
  have same: "same_store example_state (example_state\<lparr>logged := [(INFO, Loaded 1)]\<rparr>)"
    by (simp add: same_store_def)
  have sized: "sized_document (chat_data example_state)"
    by (simp add: sized_document_def example_state_def)
  have started: "messages (ChatCenter_init_plugin None example_state) = JArr []"
    by (simp add: ChatCenter_init_plugin_def ChatCenter_load_messages_def example_state_def)
  from plugins_agree
      [OF same, of "Some ''alice''" "Some ''hi''" "''text''" example_env 311 WriteOk None]
    sized
  have init: "same_store (ChatCenter_init_plugin None example_state)
      (ChatroomEnhanced_init_plugin None (example_state\<lparr>logged := [(INFO, Loaded 1)]\<rparr>))"
    by blast
  then have "messages (ChatroomEnhanced_init_plugin None
      (example_state\<lparr>logged := [(INFO, Loaded 1)]\<rparr>)) = JArr []"
    using started by (simp add: same_store_def)
  with plugins_agree
      [OF same, of "Some ''alice''" "Some ''hi''" "''text''" example_env 311 WriteOk None]
    same sized init
  show ?thesis
    by (simp add: eval_defs)
qed

text \<open>
  Claim C5 as stated fails: the classes differ in more than import probing, logging and
  metadata. On a data file that holds a JSON number, boolean or \<^verbatim>\<open>null\<close>, the log line
  of ChatroomEnhanced's \<^verbatim>\<open>_load_messages\<close> raises on \<^verbatim>\<open>len\<close> inside the \<^verbatim>\<open>try\<close>,
  and the store falls back to the empty list, where ChatCenter keeps the value read. From
  the same file and configuration \<^verbatim>\<open>get_messages\<close> then answers 42 in one and the empty
  list in the other, and a valid \<^verbatim>\<open>send_message\<close> raises in one and returns code 0 in
  the other.
\<close>

theorem load_messages_differ_on_scalar_document:
  "messages (ChatCenter_load_messages (example_state\<lparr>chat_data := Document (JInt 42)\<rparr>)) = JInt 42
   \<and> messages (ChatroomEnhanced_load_messages (example_state\<lparr>chat_data := Document (JInt 42)\<rparr>))
       = JArr []
   \<and> ChatCenter_get_messages (ChatCenter_init_plugin None (class_attributes (Document (JInt 42)))) =
       \<lparr>code = 0, message = Op_ok, data = Some (JInt 42)\<rparr>
   \<and> ChatroomEnhanced_get_messages
         (ChatroomEnhanced_init_plugin None (class_attributes (Document (JInt 42)))) =
       \<lparr>code = 0, message = Op_ok, data = Some (JArr [])\<rparr>
   \<and> fst (ChatCenter_send_message (Some ''alice'') (Some ''hi'') ''text'' example_env
         (ChatCenter_init_plugin None (class_attributes (Document (JInt 42))))) =
       Raised AttributeError
   \<and> fst (ChatroomEnhanced_send_message (Some ''alice'') (Some ''hi'') ''text'' example_env
         (ChatroomEnhanced_init_plugin None (class_attributes (Document (JInt 42))))) =
       Returned \<lparr>code = 0, message = Send_ok, data = Some (alice_message ''hi'')\<rparr>"
  by (simp add: ChatCenter_load_messages_def ChatroomEnhanced_load_messages_def
      ChatCenter_init_plugin_def ChatroomEnhanced_init_plugin_def class_attributes_def
      ChatCenter_get_messages_def ChatroomEnhanced_get_messages_def
      ChatCenter_send_message_def ChatroomEnhanced_send_message_def
      ChatCenter_update_user_online_def ChatroomEnhanced_update_user_online_def
      ChatroomEnhanced_save_messages_def example_env_def alice_message_def Let_def)


section \<open>Failures of the data file\<close>

text \<open>
  Claim C6. \<^verbatim>\<open>_load_messages\<close>, and so \<^verbatim>\<open>init_plugin\<close> under any configuration, on
  a missing file starts from the empty list and logs no error; on a file that cannot be
  read or parsed it starts from the empty list and logs the error. A save that fails logs the error and leaves message store and presence map as
  they are. \<^verbatim>\<open>clear_messages\<close> and a valid \<^verbatim>\<open>send_message\<close> on a list whose save
  fails still return code 0, keep the in-memory change and log the error.
\<close>

theorem persistence_failures_recovered:
  "(chat_data s = Absent \<longrightarrow>
        ChatCenter_load_messages s = s\<lparr>messages := JArr []\<rparr>
        \<and> messages (ChatCenter_init_plugin config s) = JArr [])
   \<and> (chat_data s = Garbled \<longrightarrow>
        ChatCenter_load_messages s =
          s\<lparr>messages := JArr [], logged := logged s @ [(ERROR, Load_failed)]\<rparr>
        \<and> messages (ChatCenter_init_plugin config s) = JArr []
        \<and> (ERROR, Load_failed) \<in> set (logged (ChatCenter_init_plugin config s)))
   \<and> (w \<noteq> WriteOk \<longrightarrow>
        logged (ChatCenter_save_messages w s) = logged s @ [(ERROR, Save_failed)]
        \<and> messages (ChatCenter_save_messages w s) = messages s
        \<and> online_users (ChatCenter_save_messages w s) = online_users s)
   \<and> (w \<noteq> WriteOk \<longrightarrow>
        fst (ChatCenter_clear_messages w s) = \<lparr>code = 0, message = Clear_ok, data = None\<rparr>
        \<and> messages (snd (ChatCenter_clear_messages w s)) = JArr []
        \<and> logged (snd (ChatCenter_clear_messages w s)) = logged s @ [(ERROR, Save_failed)])
   \<and> (\<forall>un cn xs. write_result env \<noteq> WriteOk \<and> un \<noteq> [] \<and> cn \<noteq> [] \<and> messages s = JArr xs \<longrightarrow>
        fst (ChatCenter_send_message (Some un) (Some cn) ty env s) =
          Returned \<lparr>code = 0, message = Send_ok, data = Some (new_message un cn ty env)\<rparr>
        \<and> messages (snd (ChatCenter_send_message (Some un) (Some cn) ty env s)) =
            JArr (bounded_append (max_messages s) xs (new_message un cn ty env))
        \<and> logged (snd (ChatCenter_send_message (Some un) (Some cn) ty env s)) =
            logged s @ [(ERROR, Save_failed)])"
proof -
  have save: "logged (ChatCenter_save_messages w s') = logged s' @ [(ERROR, Save_failed)]
        \<and> messages (ChatCenter_save_messages w s') = messages s'
        \<and> online_users (ChatCenter_save_messages w s') = online_users s'"
    if "w \<noteq> WriteOk" for w s'
    using that by (cases w) (simp_all add: ChatCenter_save_messages_def)
  have load: "(chat_data s = Absent \<longrightarrow>
        ChatCenter_load_messages s = s\<lparr>messages := JArr []\<rparr>
        \<and> messages (ChatCenter_init_plugin config s) = JArr [])
   \<and> (chat_data s = Garbled \<longrightarrow>
        ChatCenter_load_messages s =
          s\<lparr>messages := JArr [], logged := logged s @ [(ERROR, Load_failed)]\<rparr>
        \<and> messages (ChatCenter_init_plugin config s) = JArr []
        \<and> (ERROR, Load_failed) \<in> set (logged (ChatCenter_init_plugin config s)))"
    using init_plugin_startup [of s config] by (simp add: ChatCenter_load_messages_def)
  have clear: "fst (ChatCenter_clear_messages w s) = \<lparr>code = 0, message = Clear_ok, data = None\<rparr>
        \<and> messages (snd (ChatCenter_clear_messages w s)) = JArr []
        \<and> logged (snd (ChatCenter_clear_messages w s)) = logged s @ [(ERROR, Save_failed)]"
    if "w \<noteq> WriteOk"
    using save [OF that] by (simp add: ChatCenter_clear_messages_def)
  have send: "fst (ChatCenter_send_message (Some un) (Some cn) ty env s) =
          Returned \<lparr>code = 0, message = Send_ok, data = Some (new_message un cn ty env)\<rparr>
        \<and> messages (snd (ChatCenter_send_message (Some un) (Some cn) ty env s)) =
            JArr (bounded_append (max_messages s) xs (new_message un cn ty env))
        \<and> logged (snd (ChatCenter_send_message (Some un) (Some cn) ty env s)) =
            logged s @ [(ERROR, Save_failed)]"
    if "write_result env \<noteq> WriteOk \<and> un \<noteq> [] \<and> cn \<noteq> [] \<and> messages s = JArr xs" for un cn xs
    using that save [of "write_result env"]
    by (simp add: ChatCenter_send_message_ok)
  from load save [of w s] clear send show ?thesis by blast
qed

theorem persistence_failures_recovered_witness:
  "ChatCenter_load_messages example_state = example_state\<lparr>messages := JArr []\<rparr>
   \<and> ChatCenter_load_messages (example_state\<lparr>chat_data := Garbled\<rparr>) =
       example_state\<lparr>chat_data := Garbled, messages := JArr [],
         logged := [(ERROR, Load_failed)]\<rparr>
   \<and> ChatCenter_init_plugin None (example_state\<lparr>chat_data := Garbled\<rparr>) =
       example_state\<lparr>chat_data := Garbled, messages := JArr [],
         logged := [(ERROR, Load_failed), (INFO, Init_done)]\<rparr>
   \<and> logged (ChatCenter_save_messages OpenFailed example_state) = [(ERROR, Save_failed)]
   \<and> ChatCenter_clear_messages WriteInterrupted example_state =
       (\<lparr>code = 0, message = Clear_ok, data = None\<rparr>,
        example_state\<lparr>messages := JArr [], chat_data := Garbled,
          logged := [(ERROR, Save_failed)]\<rparr>)
   \<and> fst (ChatCenter_send_message (Some ''alice'') (Some ''hi'') ''text''
         (example_env\<lparr>write_result := OpenFailed\<rparr>) (empty_state 2)) =
       Returned \<lparr>code = 0, message = Send_ok,
         data = Some (new_message ''alice'' ''hi'' ''text'' (example_env\<lparr>write_result := OpenFailed\<rparr>))\<rparr>
   \<and> messages (snd (ChatCenter_send_message (Some ''alice'') (Some ''hi'') ''text''
         (example_env\<lparr>write_result := OpenFailed\<rparr>) (empty_state 2))) =
       JArr [new_message ''alice'' ''hi'' ''text'' (example_env\<lparr>write_result := OpenFailed\<rparr>)]
   \<and> chat_data (snd (ChatCenter_send_message (Some ''alice'') (Some ''hi'') ''text''
         (example_env\<lparr>write_result := OpenFailed\<rparr>) (empty_state 2))) = Absent"
  using persistence_failures_recovered
      [where s = example_state and config = None and w = OpenFailed and env = example_env
         and ty = "''text''"]
    persistence_failures_recovered
      [where s = "example_state\<lparr>chat_data := Garbled\<rparr>" and config = None
         and w = WriteInterrupted and env = example_env and ty = "''text''"]
    persistence_failures_recovered
      [where s = "empty_state 2" and config = None and w = WriteInterrupted
         and env = "example_env\<lparr>write_result := OpenFailed\<rparr>" and ty = "''text''"]
  by (simp add: eval_defs bounded_append_def ChatCenter_init_plugin_def)


section \<open>Clearing\<close>

text \<open>
  Claim C7. In every state \<^verbatim>\<open>clear_messages\<close> returns code 0, \<^verbatim>\<open>get_messages\<close>
  afterwards returns the empty list, and the presence map is as before. When the operating
  system carries out the write, the data file holds the empty list, and
  \<^verbatim>\<open>_load_messages\<close> in any plugin object that finds this file starts from the empty list.
\<close>

theorem clear_messages_spec:
  "fst (ChatCenter_clear_messages w s) = \<lparr>code = 0, message = Clear_ok, data = None\<rparr>
   \<and> ChatCenter_get_messages (snd (ChatCenter_clear_messages w s)) =
       \<lparr>code = 0, message = Op_ok, data = Some (JArr [])\<rparr>
   \<and> online_users (snd (ChatCenter_clear_messages w s)) = online_users s
   \<and> (w = WriteOk \<longrightarrow>
        chat_data (snd (ChatCenter_clear_messages w s)) = Document (JArr [])
        \<and> messages (ChatCenter_load_messages
             (t\<lparr>chat_data := chat_data (snd (ChatCenter_clear_messages w s))\<rparr>)) = JArr [])"
  by (cases w)
    (simp_all add: ChatCenter_clear_messages_def ChatCenter_save_messages_def
      ChatCenter_get_messages_def ChatCenter_load_messages_def)

theorem clear_messages_spec_witness:
  "ChatCenter_clear_messages WriteOk example_state =
     (\<lparr>code = 0, message = Clear_ok, data = None\<rparr>,
      example_state\<lparr>messages := JArr [], chat_data := Document (JArr [])\<rparr>)
   \<and> messages (ChatCenter_load_messages
        (example_state\<lparr>chat_data := chat_data (snd (ChatCenter_clear_messages WriteOk example_state))\<rparr>))
      = JArr []"
  using clear_messages_spec [of WriteOk example_state example_state]
  by (simp add: eval_defs)


section \<open>Heartbeat\<close>

text \<open>
  Claim C8. In every state, \<^verbatim>\<open>user_heartbeat\<close> with an absent or empty username returns
  code 1 and changes nothing. With a non-empty username it returns code 0, sets that
  name's timestamp to the reading of the clock, and leaves every other presence entry,
  the message store, the data file, the log and the configuration as they were.
\<close>

theorem user_heartbeat_frame:
  "(username = None \<or> username = Some [] \<longrightarrow>
      ChatCenter_user_heartbeat username now s =
        (\<lparr>code = 1, message = Name_required, data = None\<rparr>, s))
   \<and> (\<forall>name. username = Some name \<and> name \<noteq> [] \<longrightarrow>
        (let (r, s') = ChatCenter_user_heartbeat username now s in
           r = \<lparr>code = 0, message = Op_ok, data = None\<rparr>
           \<and> dict_get (online_users s') name = Some now
           \<and> (\<forall>other. other \<noteq> name \<longrightarrow>
                 dict_get (online_users s') other = dict_get (online_users s) other)
           \<and> messages s' = messages s
           \<and> chat_data s' = chat_data s
           \<and> logged s' = logged s
           \<and> max_messages s' = max_messages s
           \<and> online_timeout s' = online_timeout s))"
  by (auto simp: ChatCenter_user_heartbeat_def ChatCenter_update_user_online_def dict_get_setitem)

theorem user_heartbeat_frame_witness:
  "ChatCenter_user_heartbeat (Some '''') 30 example_state =
     (\<lparr>code = 1, message = Name_required, data = None\<rparr>, example_state)
   \<and> ChatCenter_user_heartbeat (Some ''alice'') 30 example_state =
       (\<lparr>code = 0, message = Op_ok, data = None\<rparr>,
        example_state\<lparr>online_users := [(''bob'', 10), (''alice'', 30)]\<rparr>)
   \<and> dict_get (online_users (snd (ChatCenter_user_heartbeat (Some ''alice'') 30 example_state)))
        ''bob'' = Some 10"
  using user_heartbeat_frame [of "Some ''''" 30 example_state]
    user_heartbeat_frame [of "Some ''alice''" 30 example_state]
  by (simp add: eval_defs)


section \<open>The type of a message\<close>

text \<open>
  Claim C9, as the code has it. \<^verbatim>\<open>send_message\<close> stores the \<^verbatim>\<open>type\<close> argument as it
  is passed: the message a successful call creates has exactly that type, and the call
  without a \<^verbatim>\<open>type\<close> argument creates a message of type \<^verbatim>\<open>"text"\<close>.
\<close>

theorem created_message_type:
  "(ChatCenter_send_message username content type env s = (Returned r, s') \<and> code r = 0 \<longrightarrow>
      (\<exists>m xs. data r = Some m \<and> message_field m ''type'' = Some (JStr type)
         \<and> messages s = JArr xs \<and> messages s' = JArr (bounded_append (max_messages s) xs m)))
   \<and> (ChatCenter_send_message_default username content env s = (Returned r, s') \<and> code r = 0 \<longrightarrow>
      (\<exists>m xs. data r = Some m \<and> message_field m ''type'' = Some (JStr ''text'')
         \<and> messages s = JArr xs \<and> messages s' = JArr (bounded_append (max_messages s) xs m)))"
proof -
  have "\<exists>m xs. data r = Some m \<and> message_field m ''type'' = Some (JStr ty)
         \<and> messages s = JArr xs \<and> messages s' = JArr (bounded_append (max_messages s) xs m)"
    if sent: "ChatCenter_send_message username content ty env s = (Returned r, s')"
      and ok: "code r = 0" for ty
  proof -
    from sent ok obtain un cn where uc: "username = Some un" "content = Some cn"
      and ne: "un \<noteq> []" "cn \<noteq> []"
      by (cases "truthy username \<and> truthy content")
        (auto simp: ChatCenter_send_message_def truthy_iff)
    from sent uc ne obtain xs where xs: "messages s = JArr xs"
      using ChatCenter_send_message_raise [OF ne, of s ty env] by fastforce
    have "message_field (new_message un cn ty env) ''type'' = Some (JStr ty)"
      by (simp add: message_field_def new_message_def)
    moreover have "messages (ChatCenter_save_messages w s0) = messages s0" for w s0
      by (cases w) (simp_all add: ChatCenter_save_messages_def)
    ultimately show ?thesis
      using sent xs unfolding uc ChatCenter_send_message_ok [OF ne xs] by auto
  qed
  then show ?thesis
    unfolding ChatCenter_send_message_default_def by blast
qed

theorem created_message_type_witness:
  "ChatCenter_send_message (Some ''alice'') (Some ''hi'') ''system'' example_env (empty_state 2) =
     (Returned \<lparr>code = 0, message = Send_ok,
        data = Some (new_message ''alice'' ''hi'' ''system'' example_env)\<rparr>,
      \<lparr>messages = JArr [new_message ''alice'' ''hi'' ''system'' example_env],
       online_users = [(''alice'', 20)], max_messages = 2, online_timeout = 300,
       chat_data = Document (JArr [new_message ''alice'' ''hi'' ''system'' example_env]),
       logged = [(INFO, Init_done)]\<rparr>)
   \<and> message_field (new_message ''alice'' ''hi'' ''system'' example_env) ''type'' = Some (JStr ''system'')
   \<and> ChatCenter_send_message_default (Some ''alice'') (Some ''hi'') example_env (empty_state 2) =
     (Returned \<lparr>code = 0, message = Send_ok, data = Some (alice_message ''hi'')\<rparr>,
      \<lparr>messages = JArr [alice_message ''hi''],
       online_users = [(''alice'', 20)], max_messages = 2, online_timeout = 300,
       chat_data = Document (JArr [alice_message ''hi'']),
       logged = [(INFO, Init_done)]\<rparr>)
   \<and> message_field (alice_message ''hi'') ''type'' = Some (JStr ''text'')"
proof -
  let ?r1 = "\<lparr>code = 0, message = Send_ok,
        data = Some (new_message ''alice'' ''hi'' ''system'' example_env)\<rparr>"
  let ?s1 = "\<lparr>messages = JArr [new_message ''alice'' ''hi'' ''system'' example_env],
       online_users = [(''alice'', 20)], max_messages = 2, online_timeout = 300,
       chat_data = Document (JArr [new_message ''alice'' ''hi'' ''system'' example_env]),
       logged = [(INFO, Init_done)]\<rparr>"
  let ?r2 = "\<lparr>code = 0, message = Send_ok, data = Some (alice_message ''hi'')\<rparr>"
  let ?s2 = "\<lparr>messages = JArr [alice_message ''hi''],
       online_users = [(''alice'', 20)], max_messages = 2, online_timeout = 300,
       chat_data = Document (JArr [alice_message ''hi'']),
       logged = [(INFO, Init_done)]\<rparr>"
  have run: "ChatCenter_send_message (Some ''alice'') (Some ''hi'') ''system'' example_env
      (empty_state 2) = (Returned ?r1, ?s1)"
    by (simp add: eval_defs)
  have dflt: "ChatCenter_send_message_default (Some ''alice'') (Some ''hi'') example_env
      (empty_state 2) = (Returned ?r2, ?s2)"
    by (simp add: eval_defs)
  from created_message_type
      [of "Some ''alice''" "Some ''hi''" "''system''" example_env "empty_state 2" ?r1 ?s1]
    run
  have sys: "message_field (new_message ''alice'' ''hi'' ''system'' example_env) ''type'' =
      Some (JStr ''system'')"
    by simp
  from created_message_type
      [of "Some ''alice''" "Some ''hi''" _ example_env "empty_state 2" ?r2 ?s2]
    dflt
  have dft: "message_field (alice_message ''hi'') ''type'' = Some (JStr ''text'')"
    by simp
  from run dflt sys dft show ?thesis
    by simp
qed

text \<open>
  Claim C9 as stated fails: nothing compares the type with \<^verbatim>\<open>"text"\<close> and
  \<^verbatim>\<open>"system"\<close>. A post of type \<^verbatim>\<open>"image"\<close> succeeds and the stored message has that
  type.
\<close>

theorem stored_type_is_not_checked:
  "fst (ChatCenter_send_message (Some ''alice'') (Some ''hi'') ''image'' example_env (empty_state 2)) =
     Returned \<lparr>code = 0, message = Send_ok,
       data = Some (new_message ''alice'' ''hi'' ''image'' example_env)\<rparr>
   \<and> messages (snd (ChatCenter_send_message (Some ''alice'') (Some ''hi'') ''image'' example_env
        (empty_state 2))) = JArr [new_message ''alice'' ''hi'' ''image'' example_env]
   \<and> message_field (new_message ''alice'' ''hi'' ''image'' example_env) ''type'' = Some (JStr ''image'')
   \<and> JStr ''image'' \<noteq> JStr ''text''
   \<and> JStr ''image'' \<noteq> JStr ''system''"
  by (simp add: eval_defs message_field_def new_message_def)


section \<open>No trimming\<close>

text \<open>
  Claim C10. \<^verbatim>\<open>send_message\<close> does not trim. For every username and content that are
  non-empty strings, blank ones included, and a message store that is a list, the call
  returns code 0 with the created message, which carries those very strings; the store
  becomes the bounded append of that message, which is its last element when
  \<^verbatim>\<open>max_messages\<close> is at least 1; and the presence map holds the username, as passed,
  with the reading of the clock.
\<close>

theorem send_message_no_trimming:
  assumes "username \<noteq> []" and "content \<noteq> []" and "messages s = JArr xs"
  shows "\<exists>m s'. ChatCenter_send_message (Some username) (Some content) type env s =
           (Returned \<lparr>code = 0, message = Send_ok, data = Some m\<rparr>, s')
     \<and> message_field m ''username'' = Some (JStr username)
     \<and> message_field m ''content'' = Some (JStr content)
     \<and> messages s' = JArr (bounded_append (max_messages s) xs m)
     \<and> (1 \<le> max_messages s \<longrightarrow> (\<exists>older. messages s' = JArr (older @ [m])))
     \<and> dict_get (online_users s') username = Some (presence_clock env)"
proof -
  let ?m = "new_message username content type env"
  let ?s' = "ChatCenter_save_messages (write_result env)
        (s\<lparr>online_users := dict_setitem username (presence_clock env) (online_users s),
           messages := JArr (bounded_append (max_messages s) xs ?m)\<rparr>)"
  have sent: "ChatCenter_send_message (Some username) (Some content) type env s =
      (Returned \<lparr>code = 0, message = Send_ok, data = Some ?m\<rparr>, ?s')"
    by (rule ChatCenter_send_message_ok [OF assms])
  have f: "message_field ?m ''username'' = Some (JStr username)"
    "message_field ?m ''content'' = Some (JStr content)"
    by (simp_all add: message_field_def new_message_def)
  have keep: "messages ?s' = JArr (bounded_append (max_messages s) xs ?m)"
    "online_users ?s' = dict_setitem username (presence_clock env) (online_users s)"
    by (cases "write_result env"; simp add: ChatCenter_save_messages_def)+
  have lastm: "\<exists>older. bounded_append (max_messages s) xs ?m = older @ [?m]"
    if b: "1 \<le> max_messages s"
  proof -
    have "bounded_append (max_messages s) xs ?m =
        drop (length (xs @ [?m]) - nat (max_messages s)) xs @ [?m]"
      using b by (simp add: bounded_append_last_n last_n_def)
    then show ?thesis by blast
  qed
  from sent f keep lastm show ?thesis
    by (auto simp: dict_get_setitem)
qed

theorem send_message_no_trimming_witness:
  "ChatCenter_send_message (Some ''  '') (Some '' '') ''text'' example_env (empty_state 2) =
     (Returned \<lparr>code = 0, message = Send_ok,
        data = Some (new_message ''  '' '' '' ''text'' example_env)\<rparr>,
      \<lparr>messages = JArr [new_message ''  '' '' '' ''text'' example_env],
       online_users = [(''  '', 20)], max_messages = 2, online_timeout = 300,
       chat_data = Document (JArr [new_message ''  '' '' '' ''text'' example_env]),
       logged = [(INFO, Init_done)]\<rparr>)
   \<and> message_field (new_message ''  '' '' '' ''text'' example_env) ''username'' = Some (JStr ''  '')
   \<and> message_field (new_message ''  '' '' '' ''text'' example_env) ''content'' = Some (JStr '' '')"
proof -
  have xs: "messages (empty_state 2) = JArr []"
    by (simp add: empty_state_eq)
  have run: "ChatCenter_send_message (Some ''  '') (Some '' '') ''text'' example_env (empty_state 2) =
     (Returned \<lparr>code = 0, message = Send_ok,
        data = Some (new_message ''  '' '' '' ''text'' example_env)\<rparr>,
      \<lparr>messages = JArr [new_message ''  '' '' '' ''text'' example_env],
       online_users = [(''  '', 20)], max_messages = 2, online_timeout = 300,
       chat_data = Document (JArr [new_message ''  '' '' '' ''text'' example_env]),
       logged = [(INFO, Init_done)]\<rparr>)"
    by (simp add: eval_defs)
  from send_message_no_trimming
      [of "''  ''" "'' ''" "empty_state 2" "[]" "''text''" example_env, OF _ _ xs]
  have "message_field (new_message ''  '' '' '' ''text'' example_env) ''username'' = Some (JStr ''  '')
     \<and> message_field (new_message ''  '' '' '' ''text'' example_env) ''content'' = Some (JStr '' '')"
    unfolding run by auto
  with run show ?thesis
    by simp
qed

end
